theory Spec2Isabelle
  imports Complex_Main "HOL-Library.AList"
begin

section \<open>JavaScript numbers and their decimal renderings\<close>

text \<open>
  A JavaScript number is modelled as a real: the dashboard only adds, multiplies and
  compares small constants, and the properties below are those of the curves, not
  of their binary rounding. Every call of \<^verbatim>\<open>Math.random()\<close> is a draw from a sequence
  \<open>rnd :: nat \<Rightarrow> real\<close>; draw \<open>k\<close> is the \<open>k\<close>-th call a generator makes. The platform
  promises \<open>0 \<le> rnd k < 1\<close>, which the theorems take as their hypothesis.
\<close>

definition digit_char :: "nat \<Rightarrow> char" where
  "digit_char d = ''0123456789'' ! (d mod 10)"

fun nat_to_string :: "nat \<Rightarrow> string" where
  "nat_to_string n =
     (if n < 10 then [digit_char n] else nat_to_string (n div 10) @ [digit_char (n mod 10)])"

definition int_to_string :: "int \<Rightarrow> string" where
  \<comment> \<open>\<^verbatim>\<open>String(n)\<close> for an integer-valued number\<close>
  "int_to_string i = (if i < 0 then ''-'' @ nat_to_string (nat (- i)) else nat_to_string (nat i))"

definition hundredths :: "real \<Rightarrow> nat" where
  \<comment> \<open>the integer \<open>n\<close> of \<^verbatim>\<open>toFixed(2)\<close>: \<open>n / 100\<close> is nearest to \<open>|x|\<close>, the larger \<open>n\<close> on a tie\<close>
  "hundredths x = nat \<lfloor>\<bar>x\<bar> * 100 + 1 / 2\<rfloor>"

definition toFixed2 :: "real \<Rightarrow> string" where
  \<comment> \<open>\<^verbatim>\<open>x.toFixed(2)\<close>, for \<open>|x| < 10^21\<close> (beyond it the platform switches to exponents)\<close>
  "toFixed2 x =
     (let n = hundredths x in
      (if x < 0 then ''-'' else '''') @ nat_to_string (n div 100) @ ''.'' @
      [digit_char (n div 10 mod 10), digit_char (n mod 10)])"

definition round2 :: "real \<Rightarrow> real" where
  \<comment> \<open>\<^verbatim>\<open>Number(x.toFixed(2))\<close>\<close>
  "round2 x = (if x < 0 then - (real (hundredths x) / 100) else real (hundredths x) / 100)"

fun draw_map :: "(real \<Rightarrow> 'a \<Rightarrow> 'b) \<Rightarrow> (nat \<Rightarrow> real) \<Rightarrow> nat \<Rightarrow> 'a list \<Rightarrow> 'b list" where
  \<comment> \<open>a loop over \<open>xs\<close> whose body calls \<^verbatim>\<open>Math.random()\<close> once; \<open>k\<close> counts the draws made so far\<close>
  "draw_map f rnd k [] = []"
| "draw_map f rnd k (a # as) = f (rnd k) a # draw_map f rnd (Suc k) as"

section \<open>Mock data generators (utils/mock.ts)\<close>

datatype label = L_str string | L_num int

record series =
  sx :: "label list"
  sy :: "real list"
  sname :: string
  smode :: string

definition yearsFull :: "int list" where
  "yearsFull = [2000..2030]"

definition baseYear :: int where
  "baseYear = 2000"

definition forecast :: "real list" where
  "forecast = map (\<lambda>y. let t = real_of_int (y - baseYear) in 55 + 0.6 * t + 0.22 * t * t) yearsFull"

definition actualYears :: "int list" where
  "actualYears = [2000..2020]"

definition actualValues :: "(nat \<Rightarrow> real) \<Rightarrow> real list" where
  "actualValues rnd =
     draw_map (\<lambda>r y. let t = real_of_int (y - baseYear);
                         trueVal = 55 + 0.6 * t + 0.22 * t * t;
                         noise = (r - 0.5) * 2.0
                     in max 50 (trueVal + noise)) rnd 0 actualYears"

definition mockForecastInteractive :: "(nat \<Rightarrow> real) \<Rightarrow> series list" where
  "mockForecastInteractive rnd =
     [\<lparr>sx = map (L_str \<circ> int_to_string) actualYears, sy = actualValues rnd,
        sname = ''Actual Stock'', smode = ''markers''\<rparr>,
      \<lparr>sx = map (L_str \<circ> int_to_string) yearsFull, sy = forecast,
        sname = ''Polynomial Forecast'', smode = ''lines''\<rparr>]"

record classification =
  species :: string
  confidence :: string

definition species_order :: "string list" where
  \<comment> \<open>the local constant \<^verbatim>\<open>order\<close>\<close>
  "species_order = [''Neon Tetra'', ''Zebra Danio'', ''Clownfish'']"

definition mockFishClassification :: "nat \<Rightarrow> real \<Rightarrow> classification \<times> nat" where
  \<comment> \<open>the module counter \<^verbatim>\<open>__mockClassificationCallCount\<close> is passed in and returned;
      \<open>r\<close> is the one draw of the call\<close>
  "mockFishClassification count r =
     (let sp = species_order ! (count mod length species_order);
          confidenceValue = r * (87 - 75) + 75;
          conf = toFixed2 confidenceValue @ ''%''
      in (\<lparr>species = sp, confidence = conf\<rparr>, count + 1))"

subsection \<open>Sea-surface temperature\<close>

text \<open>
  A \<^verbatim>\<open>Date\<close> at the first of a month is the pair of its UTC year and its month, counted
  from 0. \<^verbatim>\<open>Date.UTC(y, m, 1)\<close> carries a month beyond 11 into the year, and two such
  dates compare as their month counts do.
\<close>

type_synonym date = "int \<times> int"

definition date_utc :: "int \<Rightarrow> int \<Rightarrow> date" where
  "date_utc yr mo = (yr + mo div 12, mo mod 12)"

definition getUTCFullYear :: "date \<Rightarrow> int" where
  "getUTCFullYear d = fst d"

definition getUTCMonth :: "date \<Rightarrow> int" where
  "getUTCMonth d = snd d"

definition date_le :: "date \<Rightarrow> date \<Rightarrow> bool" where
  "date_le a b \<longleftrightarrow> 12 * fst a + snd a \<le> 12 * fst b + snd b"

definition padStart2 :: "string \<Rightarrow> string" where
  \<comment> \<open>\<^verbatim>\<open>s.padStart(2, '0')\<close>\<close>
  "padStart2 s = replicate (2 - length s) CHR ''0'' @ s"

definition month_label :: "date \<Rightarrow> string" where
  "month_label d =
     int_to_string (getUTCFullYear d) @ ''-'' @ padStart2 (int_to_string (getUTCMonth d + 1))"

definition histStart :: date where
  "histStart = date_utc 2020 0"

definition histEnd :: date where
  "histEnd = date_utc 2024 11"

definition monthlyTrend :: real where
  "monthlyTrend = 0.02"

definition baseline :: real where
  "baseline = 20"

definition amplitude :: real where
  "amplitude = 6"

text \<open>
  The historical loop makes one draw per month, so the draw it makes in a month is the one
  numbered \<open>monthIndex\<close>; the forecast loop goes on from there.
\<close>

function hist_loop ::
  "(nat \<Rightarrow> real) \<Rightarrow> date \<Rightarrow> nat \<Rightarrow> string list \<Rightarrow> real list \<Rightarrow> string list \<times> real list \<times> nat" where
  "hist_loop rnd cursor monthIndex histX histY =
     (if date_le cursor histEnd then
        (let lab = month_label cursor;
             seasonal = amplitude * sin ((2 * pi * real_of_int (getUTCMonth cursor)) / 12 - pi / 2);
             trend = monthlyTrend * real monthIndex;
             noise = (rnd monthIndex - 0.5) * 0.6
         in hist_loop rnd (date_utc (getUTCFullYear cursor) (getUTCMonth cursor + 1)) (monthIndex + 1)
              (histX @ [lab]) (histY @ [round2 (baseline + seasonal + trend + noise)]))
      else (histX, histY, monthIndex))"
  by pat_completeness auto
termination
proof (relation "measure (\<lambda>(rnd, cursor, monthIndex, histX, histY).
                   nat (12 * fst histEnd + snd histEnd + 1 - (12 * fst cursor + snd cursor)))")
  show "wf (measure (\<lambda>(rnd, cursor, monthIndex, histX, histY).
                   nat (12 * fst histEnd + snd histEnd + 1 - (12 * fst cursor + snd cursor))))"
    by simp
next
  fix rnd :: "nat \<Rightarrow> real" and cursor :: date and monthIndex :: nat
    and histX :: "string list" and histY :: "real list" and lab seasonal trend noise
  assume le: "date_le cursor histEnd"
  have "12 * ((snd cursor + 1) div 12) + (snd cursor + 1) mod 12 = snd cursor + 1"
    by simp
  then have step: "12 * fst (date_utc (getUTCFullYear cursor) (getUTCMonth cursor + 1)) +
            snd (date_utc (getUTCFullYear cursor) (getUTCMonth cursor + 1)) =
            12 * fst cursor + snd cursor + 1"
    by (simp add: date_utc_def getUTCFullYear_def getUTCMonth_def)
  show "((rnd, date_utc (getUTCFullYear cursor) (getUTCMonth cursor + 1), monthIndex + 1,
          histX @ [lab], histY @ [round2 (baseline + seasonal + trend + noise)]),
         (rnd, cursor, monthIndex, histX, histY))
        \<in> measure (\<lambda>(rnd, cursor, monthIndex, histX, histY).
                   nat (12 * fst histEnd + snd histEnd + 1 - (12 * fst cursor + snd cursor)))"
    using le unfolding in_measure prod.case step by (simp add: date_le_def)
qed

declare hist_loop.simps [simp del]

text \<open>The value the historical loop pushes in its month \<open>i\<close>, counted from 2020-01.\<close>

definition hist_value :: "(nat \<Rightarrow> real) \<Rightarrow> nat \<Rightarrow> real" where
  "hist_value rnd i =
     round2 (baseline + amplitude * sin ((2 * pi * real_of_int (int i mod 12)) / 12 - pi / 2)
             + monthlyTrend * real i + (rnd i - 0.5) * 0.6)"

definition fc_point :: "(nat \<Rightarrow> real) \<Rightarrow> nat \<Rightarrow> nat \<Rightarrow> string \<times> real" where
  \<comment> \<open>the body of the forecast loop at \<open>i\<close>\<close>
  "fc_point rnd monthIndex i =
     (let d = date_utc (getUTCFullYear histEnd) (getUTCMonth histEnd + int i);
          lab = month_label d;
          seasonal = amplitude * sin ((2 * pi * real_of_int (getUTCMonth d)) / 12 - pi / 2);
          trend = monthlyTrend * real (monthIndex + i - 1);
          noise = (rnd (monthIndex + i - 1) - 0.5) * 0.3
      in (lab, round2 (baseline + seasonal + trend + noise)))"

definition mockSST :: "(nat \<Rightarrow> real) \<Rightarrow> series list" where
  "mockSST rnd =
     (case hist_loop rnd histStart 0 [] [] of (histX, histY, monthIndex) \<Rightarrow>
        let fc = map (fc_point rnd monthIndex) [1..<19]
        in [\<lparr>sx = map L_str histX, sy = histY, sname = ''Historical SST'', smode = ''lines''\<rparr>,
            \<lparr>sx = map (L_str \<circ> fst) fc, sy = map snd fc, sname = ''SST Forecast'', smode = ''lines''\<rparr>])"

subsection \<open>Depth profile\<close>

function depth_loop :: "int \<Rightarrow> int list" where
  \<comment> \<open>\<^verbatim>\<open>for (let d = ...; d >= 0; d -= 10) depths.push(d)\<close>\<close>
  "depth_loop d = (if d \<ge> 0 then d # depth_loop (d - 10) else [])"
  by pat_completeness auto
termination
  by (relation "measure (\<lambda>d. nat (d + 10))") auto

declare depth_loop.simps [simp del]

definition depths :: "int list" where
  "depths = depth_loop 900"

text \<open>
  The three series are mapped over the depths one after the other, so chlorophyll makes the
  first \<open>length depths\<close> draws, pH the next and salinity the last.
\<close>

definition chlorophyll :: "(nat \<Rightarrow> real) \<Rightarrow> real list" where
  "chlorophyll rnd =
     draw_map (\<lambda>r d. let peakDepth = 80;
                         peak = exp (- ((real_of_int d - peakDepth)\<^sup>2) / (2 * 18\<^sup>2)) * 0.8;
                         baseline = 0.02 + (if d > 300 then 0.01 else 0.0);
                         noise = (r - 0.5) * 0.01
                     in max 0 (baseline + peak + noise)) rnd 0 depths"

definition pH :: "(nat \<Rightarrow> real) \<Rightarrow> real list" where
  "pH rnd =
     draw_map (\<lambda>r d. let val = 6.0 + 2.1 * (real_of_int d / 900);
                         noise = (r - 0.5) * 0.03
                     in max 5.5 (min 9.0 (val + noise))) rnd (length depths) depths"

definition salinity :: "(nat \<Rightarrow> real) \<Rightarrow> real list" where
  "salinity rnd =
     draw_map (\<lambda>r d. let val = 34.8 + 0.2 * (real_of_int d / 900);
                         val = val + (r - 0.5) * 0.08;
                         val = (if d > 820 \<and> d < 860 then val - 0.8 else val);
                         val = (if d > 740 \<and> d < 780 then val - 0.5 else val);
                         val = (if d > 380 \<and> d < 420 then val - 0.9 else val)
                     in max 33.0 (min 35.5 val)) rnd (2 * length depths) depths"

definition mockDepth :: "(nat \<Rightarrow> real) \<Rightarrow> series list" where
  "mockDepth rnd =
     [\<lparr>sx = map L_num depths, sy = chlorophyll rnd, sname = ''Chlorophyll (mg/m'' @ [CHR 0xC2, CHR 0xB3] @ '')'', smode = ''lines''\<rparr>,
      \<lparr>sx = map L_num depths, sy = pH rnd, sname = ''pH Level'', smode = ''lines''\<rparr>,
      \<lparr>sx = map L_num depths, sy = salinity rnd, sname = ''Salinity (PSU)'', smode = ''lines''\<rparr>]"

text \<open>Consecutive calls of the classification mock, the counter handed from each call to the next.\<close>

fun consecutive_calls :: "nat \<Rightarrow> real list \<Rightarrow> classification list" where
  "consecutive_calls count [] = []"
| "consecutive_calls count (r # rs) =
     (case mockFishClassification count r of (c, count') \<Rightarrow> c # consecutive_calls count' rs)"

section \<open>JavaScript values and the platform\<close>

text \<open>
  A value parsed from a JSON body, or held in a piece of view state typed \<^verbatim>\<open>any\<close>. An object
  is the list of its own properties; strings are byte strings.
\<close>

datatype jsval =
    JUndefined
  | JNull
  | JBool bool
  | JNum real
  | JStr string
  | JArr "jsval list"
  | JObj "(string \<times> jsval) list"

datatype js_error = Error string | TypeError | SyntaxError

fun truthy :: "jsval \<Rightarrow> bool" where
  "truthy JUndefined = False"
| "truthy JNull = False"
| "truthy (JBool b) = b"
| "truthy (JNum n) = (n \<noteq> 0)"
| "truthy (JStr s) = (s \<noteq> [])"
| "truthy (JArr _) = True"
| "truthy (JObj _) = True"

fun get_prop :: "jsval \<Rightarrow> string \<Rightarrow> js_error + jsval" where
  \<comment> \<open>\<^verbatim>\<open>v.key\<close> for the property names the pages read; reading from null or undefined throws\<close>
  "get_prop JUndefined key = Inl TypeError"
| "get_prop JNull key = Inl TypeError"
| "get_prop (JObj kvs) key = Inr (case map_of kvs key of Some v \<Rightarrow> v | None \<Rightarrow> JUndefined)"
| "get_prop (JArr vs) key = Inr (if key = ''length'' then JNum (real (length vs)) else JUndefined)"
| "get_prop (JStr s) key = Inr (if key = ''length'' then JNum (real (length s)) else JUndefined)"
| "get_prop (JBool _) key = Inr JUndefined"
| "get_prop (JNum _) key = Inr JUndefined"

fun get_first :: "jsval \<Rightarrow> js_error + jsval" where
  \<comment> \<open>\<^verbatim>\<open>v[0]\<close>\<close>
  "get_first JUndefined = Inl TypeError"
| "get_first JNull = Inl TypeError"
| "get_first (JObj kvs) = Inr (case map_of kvs ''0'' of Some v \<Rightarrow> v | None \<Rightarrow> JUndefined)"
| "get_first (JArr vs) = Inr (case vs of [] \<Rightarrow> JUndefined | v # _ \<Rightarrow> v)"
| "get_first (JStr s) = Inr (case s of [] \<Rightarrow> JUndefined | c # _ \<Rightarrow> JStr [c])"
| "get_first (JBool _) = Inr JUndefined"
| "get_first (JNum _) = Inr JUndefined"

definition js_or :: "jsval \<Rightarrow> jsval \<Rightarrow> jsval" where
  \<comment> \<open>\<^verbatim>\<open>a || b\<close>\<close>
  "js_or a b = (if truthy a then a else b)"

text \<open>
  What the pages take from the platform and the build: the configured base address, which
  addresses the \<^verbatim>\<open>URL\<close> constructor accepts, how a number prints, whether a string, an
  array or an object exceeds zero once converted to a number, what the network answers to
  the \<open>n\<close>-th request, and the draws of \<^verbatim>\<open>Math.random()\<close>.
\<close>

datatype js_file = File (file_id: nat) (file_name: string)

datatype req_body = NoBody | JsonText jsval | FormData "(string \<times> js_file) list"

record request =
  r_method :: string
  r_url :: string
  r_headers :: "(string \<times> string) list"
  r_body :: req_body

record response =
  status :: nat
  json :: "jsval option"  \<comment> \<open>the body parsed as JSON; \<open>None\<close> when it does not parse\<close>

record platform =
  API_BASE_URL :: string
  URL_ok :: "string \<Rightarrow> bool"
  Number_toString :: "real \<Rightarrow> string"
  converts_above_zero :: "jsval \<Rightarrow> bool"
  fetch_result :: "nat \<Rightarrow> request \<Rightarrow> js_error + response"
  Math_random :: "nat \<Rightarrow> real"

datatype url_event = Created string | Revoked string

record world =
  requests :: "request list"  \<comment> \<open>the requests issued so far\<close>
  mockCount :: nat  \<comment> \<open>\<^verbatim>\<open>__mockClassificationCallCount\<close>\<close>
  drawn :: nat  \<comment> \<open>how many draws have been made\<close>
  object_urls :: "string list"  \<comment> \<open>the object URLs created and not revoked\<close>
  urls_made :: nat
  url_events :: "url_event list"

fun greater_than_zero :: "platform \<Rightarrow> jsval \<Rightarrow> bool" where
  \<comment> \<open>\<^verbatim>\<open>v > 0\<close>\<close>
  "greater_than_zero pf (JNum n) = (n > 0)"
| "greater_than_zero pf (JBool b) = b"
| "greater_than_zero pf JNull = False"
| "greater_than_zero pf JUndefined = False"
| "greater_than_zero pf v = converts_above_zero pf v"

definition fetch :: "platform \<Rightarrow> request \<Rightarrow> world \<Rightarrow> (js_error + response) \<times> world" where
  "fetch pf req w = (fetch_result pf (length (requests w)) req, w\<lparr>requests := requests w @ [req]\<rparr>)"

definition ok :: "response \<Rightarrow> bool" where
  \<comment> \<open>\<^verbatim>\<open>res.ok\<close>\<close>
  "ok res \<longleftrightarrow> 200 \<le> status res \<and> status res \<le> 299"

definition res_json :: "response \<Rightarrow> js_error + jsval" where
  \<comment> \<open>\<^verbatim>\<open>res.json()\<close>\<close>
  "res_json res = (case json res of None \<Rightarrow> Inl SyntaxError | Some v \<Rightarrow> Inr v)"

section \<open>The API helper (utils/api.ts)\<close>

subsection \<open>The platform's URL and its search parameters\<close>

text \<open>
  A \<^verbatim>\<open>URL\<close> object is the text before its query, its query (absent, or the text after the
  first question mark), its fragment (absent, or the text after the first hash) and the
  list of name-value pairs of its \<^verbatim>\<open>searchParams\<close>. The constructor splits an address the
  platform accepts at these two marks; what else it normalises in the text before the
  query is left as written. Names and values are coded as
  \<^verbatim>\<open>application/x-www-form-urlencoded\<close>: a space is a plus sign, the bytes of
  \<^verbatim>\<open>*-._\<close>, digits and letters stand for themselves, every other byte is a percent sign
  and two hexadecimal digits.
\<close>

record url =
  u_prefix :: string
  u_query :: "string option"
  u_fragment :: "string option"
  u_searchParams :: "(string \<times> string) list"

definition hex_digit :: "nat \<Rightarrow> char" where
  "hex_digit n = ''0123456789ABCDEF'' ! (n mod 16)"

definition unhex :: "char \<Rightarrow> nat option" where
  "unhex c = map_of (zip ''0123456789ABCDEFabcdef'' ([0..<16] @ [10..<16])) c"

definition urlencoded_plain :: "char \<Rightarrow> bool" where
  "urlencoded_plain c \<longleftrightarrow>
     c \<in> set ''*-._0123456789ABCDEFGHIJKLMNOPQRSTUVWXYZabcdefghijklmnopqrstuvwxyz''"

fun urlencode :: "string \<Rightarrow> string" where
  "urlencode [] = []"
| "urlencode (c # cs) =
     (if c = CHR '' '' then CHR ''+'' # urlencode cs
      else if urlencoded_plain c then c # urlencode cs
      else CHR ''%'' # hex_digit (of_char c div 16) # hex_digit (of_char c mod 16) # urlencode cs)"

fun urldecode :: "string \<Rightarrow> string" where
  "urldecode [] = []"
| "urldecode (c # cs) =
     (if c = CHR ''+'' then CHR '' '' # urldecode cs
      else if c = CHR ''%'' then
        (case cs of
           a # b # rest \<Rightarrow>
             (case (unhex a, unhex b) of
                (Some h, Some l) \<Rightarrow> char_of (16 * h + l) # urldecode rest
              | _ \<Rightarrow> c # urldecode cs)
         | _ \<Rightarrow> c # urldecode cs)
      else c # urldecode cs)"

fun split_on :: "char \<Rightarrow> string \<Rightarrow> string list" where
  "split_on c [] = [[]]"
| "split_on c (a # as) =
     (if a = c then [] # split_on c as
      else (case split_on c as of [] \<Rightarrow> [[a]] | w # ws \<Rightarrow> (a # w) # ws))"

fun join_with :: "char \<Rightarrow> string list \<Rightarrow> string" where
  "join_with c [] = []"
| "join_with c [w] = w"
| "join_with c (w # v # ws) = w @ c # join_with c (v # ws)"

definition split_first :: "char \<Rightarrow> string \<Rightarrow> string \<times> string option" where
  \<comment> \<open>the text before the first \<open>c\<close>, and the text after it when there is one\<close>
  "split_first c s =
     (takeWhile (\<lambda>a. a \<noteq> c) s,
      if c \<in> set s then Some (drop 1 (dropWhile (\<lambda>a. a \<noteq> c) s)) else None)"

definition parse_pair :: "string \<Rightarrow> string \<times> string" where
  "parse_pair s =
     (case split_first CHR ''='' s of
        (n, None) \<Rightarrow> (urldecode n, [])
      | (n, Some v) \<Rightarrow> (urldecode n, urldecode v))"

definition parse_query :: "string \<Rightarrow> (string \<times> string) list" where
  "parse_query q = map parse_pair (filter (\<lambda>s. s \<noteq> []) (split_on CHR ''&'' q))"

definition serialize_query :: "(string \<times> string) list \<Rightarrow> string" where
  "serialize_query l = join_with CHR ''&'' (map (\<lambda>(n, v). urlencode n @ CHR ''='' # urlencode v) l)"

definition URL_new :: "platform \<Rightarrow> string \<Rightarrow> js_error + url" where
  \<comment> \<open>\<^verbatim>\<open>new URL(s)\<close>\<close>
  "URL_new pf s =
     (if \<not> URL_ok pf s then Inl TypeError
      else (case split_first CHR ''#'' s of (s1, frag) \<Rightarrow>
            (case split_first CHR ''?'' s1 of (pre, q) \<Rightarrow>
               Inr \<lparr>u_prefix = pre, u_query = q, u_fragment = frag,
                    u_searchParams = parse_query (case q of None \<Rightarrow> [] | Some t \<Rightarrow> t)\<rparr>)))"

fun set_pair :: "string \<Rightarrow> string \<Rightarrow> (string \<times> string) list \<Rightarrow> (string \<times> string) list" where
  \<comment> \<open>the list after \<^verbatim>\<open>searchParams.set(name, value)\<close>: the first pair of that name takes the
      value and the others of that name go; without one, the pair is appended\<close>
  "set_pair k v [] = [(k, v)]"
| "set_pair k v (e # es) =
     (if fst e = k then (k, v) # filter (\<lambda>e'. fst e' \<noteq> k) es else e # set_pair k v es)"

definition searchParams_set :: "string \<Rightarrow> string \<Rightarrow> url \<Rightarrow> url" where
  \<comment> \<open>\<^verbatim>\<open>url.searchParams.set(name, value)\<close>; the URL's query follows the list\<close>
  "searchParams_set k v u =
     (let l = set_pair k v (u_searchParams u); t = serialize_query l
      in u\<lparr>u_searchParams := l, u_query := (if t = [] then None else Some t)\<rparr>)"

definition URL_toString :: "url \<Rightarrow> string" where
  "URL_toString u =
     u_prefix u @ (case u_query u of None \<Rightarrow> [] | Some q \<Rightarrow> CHR ''?'' # q)
                @ (case u_fragment u of None \<Rightarrow> [] | Some f \<Rightarrow> CHR ''#'' # f)"

subsection \<open>buildUrl and the three requests\<close>

datatype qvalue = QString string | QNumber real | QBoolean bool | QUndefined | QNull

fun String_of :: "platform \<Rightarrow> qvalue \<Rightarrow> string" where
  \<comment> \<open>\<^verbatim>\<open>String(value)\<close>\<close>
  "String_of pf (QString s) = s"
| "String_of pf (QNumber n) = Number_toString pf n"
| "String_of pf (QBoolean b) = (if b then ''true'' else ''false'')"
| "String_of pf QUndefined = ''undefined''"
| "String_of pf QNull = ''null''"

definition startsWith :: "string \<Rightarrow> string \<Rightarrow> bool" where
  "startsWith s p \<longleftrightarrow> take (length p) s = p"

text \<open>
  \<open>params\<close> is the list \<^verbatim>\<open>Object.entries(params)\<close>, or \<open>None\<close> when the argument is left out.
\<close>

definition buildUrl :: "platform \<Rightarrow> string \<Rightarrow> (string \<times> qvalue) list option \<Rightarrow> js_error + string" where
  "buildUrl pf path params =
     (case URL_new pf (if startsWith path ''http'' then path else API_BASE_URL pf @ path) of
        Inl e \<Rightarrow> Inl e
      | Inr u \<Rightarrow>
          Inr (URL_toString
                (case params of
                   None \<Rightarrow> u
                 | Some ps \<Rightarrow>
                     foldl (\<lambda>u (key, v).
                              if v \<noteq> QUndefined \<and> v \<noteq> QNull
                              then searchParams_set key (String_of pf v) u else u) u ps)))"

record request_init =
  i_method :: "string option"
  i_headers :: "(string \<times> string) list option"
  i_body :: "req_body option"

definition spread_init :: "request \<Rightarrow> request_init option \<Rightarrow> request" where
  \<comment> \<open>\<^verbatim>\<open>{ method, headers, body, ...init }\<close>: what \<open>init\<close> gives replaces the helper's own\<close>
  "spread_init req init =
     (case init of
        None \<Rightarrow> req
      | Some i \<Rightarrow>
          req\<lparr>r_method := (case i_method i of None \<Rightarrow> r_method req | Some m \<Rightarrow> m),
              r_headers := (case i_headers i of None \<Rightarrow> r_headers req | Some h \<Rightarrow> h),
              r_body := (case i_body i of None \<Rightarrow> r_body req | Some b \<Rightarrow> b)\<rparr>)"

definition init_headers :: "request_init option \<Rightarrow> (string \<times> string) list" where
  \<comment> \<open>\<^verbatim>\<open>...(init?.headers || {})\<close>\<close>
  "init_headers init =
     (case init of None \<Rightarrow> [] | Some i \<Rightarrow> (case i_headers i of None \<Rightarrow> [] | Some h \<Rightarrow> h))"

definition merge_headers :: "(string \<times> string) list \<Rightarrow> (string \<times> string) list \<Rightarrow> (string \<times> string) list" where
  \<comment> \<open>an object literal followed by a spread: a later key replaces the value of an earlier one\<close>
  "merge_headers own extra = foldl (\<lambda>hs (k, v). AList.update k v hs) own extra"

definition send :: "platform \<Rightarrow> string \<Rightarrow> string \<Rightarrow> request \<Rightarrow> world \<Rightarrow> (js_error + jsval) \<times> world" where
  \<comment> \<open>the part the three helpers share: \<^verbatim>\<open>await fetch(...)\<close>, the check of \<^verbatim>\<open>res.ok\<close>,
      \<^verbatim>\<open>res.json()\<close>\<close>
  "send pf verb path req w =
     (case fetch pf req w of
        (Inl e, w') \<Rightarrow> (Inl e, w')
      | (Inr res, w') \<Rightarrow>
          if \<not> ok res
          then (Inl (Error (verb @ '' '' @ path @ '' failed: '' @ nat_to_string (status res))), w')
          else (res_json res, w'))"

definition getJson ::
  "platform \<Rightarrow> string \<Rightarrow> (string \<times> qvalue) list option \<Rightarrow> request_init option \<Rightarrow> world
     \<Rightarrow> (js_error + jsval) \<times> world" where
  "getJson pf path params init w =
     (case buildUrl pf path params of
        Inl e \<Rightarrow> (Inl e, w)
      | Inr u \<Rightarrow>
          send pf ''GET'' path
            (spread_init \<lparr>r_method = ''GET'', r_url = u,
                          r_headers = merge_headers [(''Accept'', ''application/json'')] (init_headers init),
                          r_body = NoBody\<rparr> init) w)"

definition postJson ::
  "platform \<Rightarrow> string \<Rightarrow> (string \<times> qvalue) list option \<Rightarrow> jsval \<Rightarrow> request_init option \<Rightarrow> world
     \<Rightarrow> (js_error + jsval) \<times> world" where
  "postJson pf path params body init w =
     (case buildUrl pf path params of
        Inl e \<Rightarrow> (Inl e, w)
      | Inr u \<Rightarrow>
          send pf ''POST'' path
            (spread_init \<lparr>r_method = ''POST'', r_url = u,
                          r_headers = merge_headers [(''Accept'', ''application/json''),
                                                     (''Content-Type'', ''application/json'')]
                                        (init_headers init),
                          r_body = (if body \<noteq> JUndefined then JsonText body else NoBody)\<rparr> init) w)"

definition postFormData ::
  "platform \<Rightarrow> string \<Rightarrow> (string \<times> qvalue) list option \<Rightarrow> (string \<times> js_file) list
     \<Rightarrow> request_init option \<Rightarrow> world \<Rightarrow> (js_error + jsval) \<times> world" where
  "postFormData pf path params formData init w =
     (case buildUrl pf path params of
        Inl e \<Rightarrow> (Inl e, w)
      | Inr u \<Rightarrow>
          send pf ''POST'' path
            (spread_init \<lparr>r_method = ''POST'', r_url = u,
                          r_headers = merge_headers [(''Accept'', ''application/json'')] (init_headers init),
                          r_body = FormData formData\<rparr> init) w)"

definition imageUrl :: "platform \<Rightarrow> string \<Rightarrow> (string \<times> qvalue) list option \<Rightarrow> js_error + string" where
  "imageUrl pf path params = buildUrl pf path params"

subsection \<open>A platform and a world to run the pages on\<close>

text \<open>
  The default base address, every address accepted, integers printed in decimal, no
  string, array or object above zero, every draw one half, and the network answering as
  \<open>net\<close> says. The world is the one of a freshly loaded page.
\<close>

definition demo_platform :: "(nat \<Rightarrow> request \<Rightarrow> js_error + response) \<Rightarrow> platform" where
  "demo_platform net =
     \<lparr>API_BASE_URL = ''http://127.0.0.1:8000'',
      URL_ok = (\<lambda>_. True),
      Number_toString = (\<lambda>n. int_to_string \<lfloor>n\<rfloor>),
      converts_above_zero = (\<lambda>_. False),
      fetch_result = net,
      Math_random = (\<lambda>_. 1 / 2)\<rparr>"

definition fresh_world :: world where
  "fresh_world = \<lparr>requests = [], mockCount = 0, drawn = 0, object_urls = [], urls_made = 0, url_events = []\<rparr>"

definition answers :: "nat \<Rightarrow> jsval option \<Rightarrow> nat \<Rightarrow> request \<Rightarrow> js_error + response" where
  \<comment> \<open>a network that answers every request with the same status and body\<close>
  "answers st body n req = Inr \<lparr>status = st, json = body\<rparr>"

definition unreachable :: "nat \<Rightarrow> request \<Rightarrow> js_error + response" where
  \<comment> \<open>a network on which every request fails\<close>
  "unreachable n req = Inl TypeError"

section \<open>The Fisheries page (pages/Fisheries.tsx)\<close>

datatype plot_data = Backend_plot jsval | Mock_plot "series list"

text \<open>
  The state of the component, and what React keeps for the preview effect: the value of
  \<open>selectedFile\<close> the effect last ran with, and the URL its cleanup will revoke.
\<close>

record fisheries =
  forecastData :: "plot_data option"
  selectedFile :: "js_file option"
  classificationResult :: jsval
  classifyError :: "string option"
  uploading :: bool
  previewUrl :: "string option"
  effect_ran_with :: "js_file option option"
  effect_cleanup :: "string option"

definition initial_fisheries :: fisheries where
  "initial_fisheries =
     \<lparr>forecastData = None, selectedFile = None, classificationResult = JNull,
      classifyError = None, uploading = False, previewUrl = None,
      effect_ran_with = None, effect_cleanup = None\<rparr>"

definition createObjectURL :: "js_file \<Rightarrow> world \<Rightarrow> string \<times> world" where
  "createObjectURL f w =
     (let u = ''blob:'' @ nat_to_string (urls_made w)
      in (u, w\<lparr>object_urls := object_urls w @ [u], urls_made := urls_made w + 1,
                url_events := url_events w @ [Created u]\<rparr>))"

definition revokeObjectURL :: "string \<Rightarrow> world \<Rightarrow> world" where
  "revokeObjectURL u w =
     w\<lparr>object_urls := removeAll u (object_urls w), url_events := url_events w @ [Revoked u]\<rparr>"

definition fetchForecastData :: "platform \<Rightarrow> fisheries \<times> world \<Rightarrow> fisheries \<times> world" where
  "fetchForecastData pf sw =
     (case sw of (s, w) \<Rightarrow>
        (case getJson pf ''/forecast_interactive'' None None w of
           (Inr data, w') \<Rightarrow> (s\<lparr>forecastData := Some (Backend_plot data)\<rparr>, w')
         | (Inl error, w') \<Rightarrow>
             (s\<lparr>forecastData :=
                  Some (Mock_plot (mockForecastInteractive (\<lambda>k. Math_random pf (drawn w' + k))))\<rparr>,
              w'\<lparr>drawn := drawn w' + length actualYears\<rparr>)))"

definition preview_effect :: "fisheries \<times> world \<Rightarrow> fisheries \<times> world" where
  \<comment> \<open>the body of the effect on \<open>selectedFile\<close>; what it returns becomes the cleanup\<close>
  "preview_effect sw =
     (case sw of (s, w) \<Rightarrow>
        (case selectedFile s of
           None \<Rightarrow>
             (s\<lparr>previewUrl := None, effect_cleanup := None\<rparr>,
              (case previewUrl s of
                 Some u \<Rightarrow> if u \<noteq> [] then revokeObjectURL u w else w
               | None \<Rightarrow> w))
         | Some f \<Rightarrow>
             (case createObjectURL f w of
                (u, w') \<Rightarrow> (s\<lparr>previewUrl := Some u, effect_cleanup := Some u\<rparr>, w'))))"

definition commit_effects :: "fisheries \<times> world \<Rightarrow> fisheries \<times> world" where
  \<comment> \<open>React after a render: when \<open>selectedFile\<close> is not the value the effect last ran with,
      the cleanup of the last run is called and then the effect\<close>
  "commit_effects sw =
     (case sw of (s, w) \<Rightarrow>
        if effect_ran_with s = Some (selectedFile s) then (s, w)
        else preview_effect
               (s\<lparr>effect_ran_with := Some (selectedFile s)\<rparr>,
                (case effect_cleanup s of Some u \<Rightarrow> revokeObjectURL u w | None \<Rightarrow> w)))"

definition handleFileSelect :: "js_file option \<Rightarrow> fisheries \<Rightarrow> fisheries" where
  \<comment> \<open>the argument is \<^verbatim>\<open>event.target.files?.[0]\<close>\<close>
  "handleFileSelect file s =
     (case file of
        Some f \<Rightarrow> s\<lparr>selectedFile := Some f, classificationResult := JNull\<rparr>
      | None \<Rightarrow> s)"

definition confidenceStr :: "jsval \<Rightarrow> jsval" where
  "confidenceStr c = (case c of JNum n \<Rightarrow> JStr (toFixed2 n @ ''%'') | _ \<Rightarrow> c)"

definition primary_result :: "jsval \<Rightarrow> js_error + jsval" where
  \<comment> \<open>the object the primary route's answer is turned into\<close>
  "primary_result result =
     (case get_prop result ''confidence'' of
        Inl e \<Rightarrow> Inl e
      | Inr c \<Rightarrow>
          (case get_prop result ''species'' of
             Inl e \<Rightarrow> Inl e
           | Inr sp \<Rightarrow> Inr (JObj [(''species'', sp), (''confidence'', confidenceStr c)])))"

definition alternate_result :: "jsval \<Rightarrow> js_error + jsval" where
  \<comment> \<open>the object an alternative route's answer is turned into\<close>
  "alternate_result result =
     (case get_prop result ''confidence'' of
        Inl e \<Rightarrow> Inl e
      | Inr c \<Rightarrow>
          (case get_prop result ''predicted_class'' of
             Inl e \<Rightarrow> Inl e
           | Inr pc \<Rightarrow>
               (case get_prop result ''species'' of
                  Inl e \<Rightarrow> Inl e
                | Inr sp \<Rightarrow> Inr (JObj [(''species'', js_or pc sp), (''confidence'', confidenceStr c)]))))"

definition classify_try ::
  "platform \<Rightarrow> string \<Rightarrow> (jsval \<Rightarrow> js_error + jsval) \<Rightarrow> (string \<times> js_file) list
     \<Rightarrow> fisheries \<times> world \<Rightarrow> (js_error + unit) \<times> fisheries \<times> world" where
  \<comment> \<open>one \<^verbatim>\<open>try\<close> block: the request, the object made of its answer, the two setters\<close>
  "classify_try pf path shape formData sw =
     (case sw of (s, w) \<Rightarrow>
        (case postFormData pf path None formData None w of
           (Inl e, w') \<Rightarrow> (Inl e, s, w')
         | (Inr result, w') \<Rightarrow>
             (case shape result of
                Inl e \<Rightarrow> (Inl e, s, w')
              | Inr obj \<Rightarrow> (Inr (), s\<lparr>classificationResult := obj, classifyError := None\<rparr>, w'))))"

definition classify_mock :: "platform \<Rightarrow> fisheries \<times> world \<Rightarrow> (js_error + unit) \<times> fisheries \<times> world" where
  \<comment> \<open>the innermost \<^verbatim>\<open>catch\<close> block\<close>
  "classify_mock pf sw =
     (case sw of (s, w) \<Rightarrow>
        (case mockFishClassification (mockCount w) (Math_random pf (drawn w)) of
           (mock, count') \<Rightarrow>
             (Inr (),
              s\<lparr>classificationResult :=
                   JObj [(''species'', JStr (species mock)), (''confidence'', JStr (confidence mock))],
                 classifyError := None\<rparr>,
              w\<lparr>mockCount := count', drawn := drawn w + 1\<rparr>)))"

definition handleClassifyFish ::
  "platform \<Rightarrow> fisheries \<times> world \<Rightarrow> (js_error + unit) \<times> fisheries \<times> world" where
  "handleClassifyFish pf sw =
     (case sw of (s, w) \<Rightarrow>
        (case selectedFile s of
           None \<Rightarrow> (Inr (), s, w)
         | Some f \<Rightarrow>
             (let formData = [(''file'', f)];
                  body =
                    (case classify_try pf ''/predict/fish_species'' primary_result formData
                            (s\<lparr>uploading := True\<rparr>, w) of
                       (Inr u, sw1) \<Rightarrow> (Inr u, sw1)
                     | (Inl error, sw1) \<Rightarrow>
                         (case classify_try pf ''/classify/fish'' alternate_result formData sw1 of
                            (Inr u, sw2) \<Rightarrow> (Inr u, sw2)
                          | (Inl e2, sw2) \<Rightarrow>
                              (case classify_try pf ''/api/v1/fish/classify'' alternate_result
                                      formData sw2 of
                                 (Inr u, sw3) \<Rightarrow> (Inr u, sw3)
                               | (Inl e3, sw3) \<Rightarrow> classify_mock pf sw3)))
              in (case body of (r, s', w') \<Rightarrow> (r, s'\<lparr>uploading := False\<rparr>, w')))))"

text \<open>
  What happens to the page: it is mounted, and then files are chosen and the classify button
  is pressed, React committing the effects after each.
\<close>

datatype fisheries_event = Select "js_file option" | Classify

definition mount :: "platform \<Rightarrow> world \<Rightarrow> fisheries \<times> world" where
  "mount pf w = fetchForecastData pf (commit_effects (initial_fisheries, w))"

definition fisheries_step :: "platform \<Rightarrow> fisheries_event \<Rightarrow> fisheries \<times> world \<Rightarrow> fisheries \<times> world" where
  "fisheries_step pf ev sw =
     (case ev of
        Select file \<Rightarrow> commit_effects (handleFileSelect file (fst sw), snd sw)
      | Classify \<Rightarrow> commit_effects (snd (handleClassifyFish pf sw)))"

definition fisheries_run :: "platform \<Rightarrow> fisheries_event list \<Rightarrow> world \<Rightarrow> fisheries \<times> world" where
  "fisheries_run pf evs w = foldl (\<lambda>sw ev. fisheries_step pf ev sw) (mount pf w) evs"

definition live_after :: "url_event list \<Rightarrow> string list" where
  \<comment> \<open>the object URLs alive after a sequence of creations and revocations\<close>
  "live_after evs =
     foldl (\<lambda>l e. case e of Created u \<Rightarrow> l @ [u] | Revoked u \<Rightarrow> removeAll u l) [] evs"

section \<open>The Biodiversity page (pages/Biodiversity.tsx)\<close>

record biodiversity =
  selectedFile_bio :: "js_file option"  \<comment> \<open>this page's \<^verbatim>\<open>selectedFile\<close>\<close>
  analysisResults :: jsval
  loading :: bool
  invasiveAlert :: jsval

definition initial_biodiversity :: biodiversity where
  "initial_biodiversity =
     \<lparr>selectedFile_bio = None, analysisResults = JNull, loading = False, invasiveAlert = JNull\<rparr>"

definition handleFileSelect_bio :: "js_file option \<Rightarrow> biodiversity \<Rightarrow> biodiversity" where
  \<comment> \<open>this page's \<^verbatim>\<open>handleFileSelect\<close>\<close>
  "handleFileSelect_bio file s =
     (case file of
        Some f \<Rightarrow> s\<lparr>selectedFile_bio := Some f, analysisResults := JNull, invasiveAlert := JNull\<rparr>
      | None \<Rightarrow> s)"

definition SpeciesResult :: "string \<Rightarrow> string \<Rightarrow> real \<Rightarrow> bool \<Rightarrow> jsval" where
  "SpeciesResult sq sp cf iv =
     JObj [(''sequence'', JStr sq), (''species'', JStr sp), (''confidence'', JNum cf),
           (''invasive'', JBool iv)]"

definition getMockeDNAResults :: "jsval list" where
  "getMockeDNAResults =
     [SpeciesResult ''ATCGATCGATCGATCG'' ''Atlantic Cod (Gadus morhua)'' 94 False,
      SpeciesResult ''GCTAGCTAGCTAGCTA'' ''Harbor Seal (Phoca vitulina)'' 89 False,
      SpeciesResult ''TTAATTAATTAATTAA'' ''Blue Mussel (Mytilus edulis)'' 76 False,
      SpeciesResult ''CGCGCGCGCGCGCGCG'' ''Nile Tilapia (Oreochromis niloticus)'' 82 True,
      SpeciesResult ''AAAATTTTAAAATTTT'' ''European Green Crab (Carcinus maenas)'' 71 False]"

fun find_invasive :: "jsval list \<Rightarrow> js_error + jsval" where
  \<comment> \<open>\<^verbatim>\<open>results.find(s => s.invasive)\<close>\<close>
  "find_invasive [] = Inr JUndefined"
| "find_invasive (h # hs) =
     (case get_prop h ''invasive'' of
        Inl e \<Rightarrow> Inl e
      | Inr b \<Rightarrow> if truthy b then Inr h else find_invasive hs)"

definition first_of_invasive_species :: "platform \<Rightarrow> jsval \<Rightarrow> js_error + jsval" where
  \<comment> \<open>\<^verbatim>\<open>result.invasive_species && result.invasive_species.length > 0
        ? result.invasive_species[0] : null\<close>\<close>
  "first_of_invasive_species pf result =
     (case get_prop result ''invasive_species'' of
        Inl e \<Rightarrow> Inl e
      | Inr listed \<Rightarrow>
          if truthy listed then
            (case get_prop listed ''length'' of
               Inl e \<Rightarrow> Inl e
             | Inr len \<Rightarrow> if greater_than_zero pf len then get_first listed else Inr JNull)
          else Inr JNull)"

definition edna_request :: "(string \<times> js_file) list \<Rightarrow> request" where
  "edna_request formData =
     \<lparr>r_method = ''POST'', r_url = ''http://127.0.0.1:8000/api/v1/edna/analyze'',
      r_headers = [], r_body = FormData formData\<rparr>"

definition edna_answer :: "platform \<Rightarrow> (string \<times> js_file) list \<Rightarrow> world \<Rightarrow> (js_error + jsval) \<times> world" where
  \<comment> \<open>\<^verbatim>\<open>await fetch(...)\<close> and \<^verbatim>\<open>await response.json()\<close>\<close>
  "edna_answer pf formData w =
     (case fetch pf (edna_request formData) w of
        (Inl e, w') \<Rightarrow> (Inl e, w')
      | (Inr res, w') \<Rightarrow> (res_json res, w'))"

definition edna_try ::
  "platform \<Rightarrow> (string \<times> js_file) list \<Rightarrow> biodiversity \<times> world
     \<Rightarrow> (js_error + unit) \<times> biodiversity \<times> world" where
  \<comment> \<open>the \<^verbatim>\<open>try\<close> block\<close>
  "edna_try pf formData sw =
     (case sw of (s, w) \<Rightarrow>
        (case edna_answer pf formData w of
           (Inl e, w') \<Rightarrow> (Inl e, s, w')
         | (Inr result, w') \<Rightarrow>
             (case get_prop result ''detected_species'' of
                Inl e \<Rightarrow> (Inl e, s, w')
              | Inr detected \<Rightarrow>
                  if truthy detected then
                    (let s' = s\<lparr>analysisResults := detected\<rparr> in
                     (case first_of_invasive_species pf result of
                        Inl e \<Rightarrow> (Inl e, s', w')
                      | Inr invasive \<Rightarrow>
                          if truthy invasive then
                            (case get_prop invasive ''species'' of
                               Inl e \<Rightarrow> (Inl e, s', w')
                             | Inr sp \<Rightarrow> (Inr (), s'\<lparr>invasiveAlert := js_or sp invasive\<rparr>, w'))
                          else (Inr (), s', w')))
                  else (Inr (), s, w'))))"

definition edna_catch :: "biodiversity \<times> world \<Rightarrow> (js_error + unit) \<times> biodiversity \<times> world" where
  \<comment> \<open>the \<^verbatim>\<open>catch\<close> block\<close>
  "edna_catch sw =
     (case sw of (s, w) \<Rightarrow>
        (let mockResults = getMockeDNAResults;
             s' = s\<lparr>analysisResults := JArr mockResults\<rparr>
         in (case find_invasive mockResults of
               Inl e \<Rightarrow> (Inl e, s', w)
             | Inr invasive \<Rightarrow>
                 if truthy invasive then
                   (case get_prop invasive ''species'' of
                      Inl e \<Rightarrow> (Inl e, s', w)
                    | Inr sp \<Rightarrow> (Inr (), s'\<lparr>invasiveAlert := sp\<rparr>, w))
                 else (Inr (), s', w))))"

definition handleAnalyzeeDNA ::
  "platform \<Rightarrow> biodiversity \<times> world \<Rightarrow> (js_error + unit) \<times> biodiversity \<times> world" where
  "handleAnalyzeeDNA pf sw =
     (case sw of (s, w) \<Rightarrow>
        (case selectedFile_bio s of
           None \<Rightarrow> (Inr (), s, w)
         | Some f \<Rightarrow>
             (let formData = [(''file'', f)];
                  body =
                    (case edna_try pf formData (s\<lparr>loading := True\<rparr>, w) of
                       (Inr u, sw1) \<Rightarrow> (Inr u, sw1)
                     | (Inl error, sw1) \<Rightarrow> edna_catch sw1)
              in (case body of (r, s', w') \<Rightarrow> (r, s'\<lparr>loading := False\<rparr>, w')))))"

text \<open>How a list of hits is read off the page's state: its elements, and which are invasive.\<close>

definition hit_list :: "jsval \<Rightarrow> jsval list" where
  "hit_list v = (case v of JArr hs \<Rightarrow> hs | _ \<Rightarrow> [])"

definition is_invasive :: "jsval \<Rightarrow> bool" where
  "is_invasive h \<longleftrightarrow> get_prop h ''invasive'' = Inr (JBool True)"

definition edna_outcome :: "platform \<Rightarrow> biodiversity \<Rightarrow> world \<Rightarrow> biodiversity" where
  \<comment> \<open>the state of the page after a run of the handler\<close>
  "edna_outcome pf s w = fst (snd (handleAnalyzeeDNA pf (s, w)))"

definition three_hits :: "jsval list" where
  \<comment> \<open>a result set A, B, C of which B and C are invasive\<close>
  "three_hits =
     [SpeciesResult ''ACGT'' ''A'' 90 False,
      SpeciesResult ''CGTA'' ''B'' 80 True,
      SpeciesResult ''GTAC'' ''C'' 70 True]"

section \<open>Decimal rendering\<close>

lemma digit_char_simps:
  "digit_char 0 = CHR ''0''" "digit_char 1 = CHR ''1''" "digit_char 2 = CHR ''2''"
  "digit_char 3 = CHR ''3''" "digit_char 4 = CHR ''4''" "digit_char 5 = CHR ''5''"
  "digit_char 6 = CHR ''6''" "digit_char 7 = CHR ''7''" "digit_char 8 = CHR ''8''"
  "digit_char 9 = CHR ''9''" "digit_char (Suc 0) = CHR ''1''"
  by (simp_all add: digit_char_def)

lemma nat_to_string_two_digits:
  assumes "10 \<le> m" "m < 100"
  shows "nat_to_string m = [digit_char (m div 10), digit_char (m mod 10)]"
proof -
  have "m div 10 < 10" using assms by simp
  then show ?thesis using assms by simp
qed

lemma hundredths_bounds:
  assumes "a \<le> x" "x < b" "0 \<le> a"
  shows "nat \<lfloor>a * 100 + 1/2\<rfloor> \<le> hundredths x" "hundredths x \<le> nat \<lfloor>b * 100 + 1/2\<rfloor>"
proof -
  have "\<bar>x\<bar> = x" using assms by simp
  then show "nat \<lfloor>a * 100 + 1/2\<rfloor> \<le> hundredths x" "hundredths x \<le> nat \<lfloor>b * 100 + 1/2\<rfloor>"
    using assms unfolding hundredths_def
    by (auto intro!: nat_mono floor_mono)
qed

lemma toFixed2_shape:
  assumes "75 \<le> v" "v < 87"
  shows "\<exists>a b c d. a < 10 \<and> b < 10 \<and> c < 10 \<and> d < 10 \<and>
           toFixed2 v = [digit_char a, digit_char b, CHR ''.'', digit_char c, digit_char d] \<and>
           75 \<le> real (10 * a + b) + real (10 * c + d) / 100 \<and>
           real (10 * a + b) + real (10 * c + d) / 100 \<le> 87"
proof -
  define n where "n = hundredths v"
  have lo: "7500 \<le> n" using hundredths_bounds(1)[of 75 v 87] assms by (simp add: n_def)
  have hi: "n \<le> 8700" using hundredths_bounds(2)[of 75 v 87] assms by (simp add: n_def)
  define m where "m = n div 100"
  have m: "10 \<le> m" "m < 100" using lo hi by (simp_all add: m_def)
  have tf: "toFixed2 v = [digit_char (m div 10), digit_char (m mod 10), CHR ''.'',
              digit_char (n div 10 mod 10), digit_char (n mod 10)]"
    using assms nat_to_string_two_digits[OF m] by (simp add: toFixed2_def n_def m_def Let_def)
  have val: "real (10 * (m div 10) + m mod 10) + real (10 * (n div 10 mod 10) + n mod 10) / 100
             = real n / 100"
  proof -
    have e1: "10 * (m div 10) + m mod 10 = m" by simp
    have e2: "10 * (n div 10 mod 10) + n mod 10 = n mod 100"
      using mod_mult2_eq[of n 10 10] by simp
    have "100 * m + n mod 100 = n" by (simp add: m_def)
    then have "real n = 100 * real m + real (n mod 100)"
      by (metis of_nat_add of_nat_mult of_nat_numeral)
    then show ?thesis unfolding e1 e2 by simp
  qed
  have b1: "75 \<le> real (10 * (m div 10) + m mod 10) + real (10 * (n div 10 mod 10) + n mod 10) / 100"
    unfolding val using lo by simp
  have b2: "real (10 * (m div 10) + m mod 10) + real (10 * (n div 10 mod 10) + n mod 10) / 100 \<le> 87"
    unfolding val using hi by simp
  have d: "m div 10 < 10" "m mod 10 < 10" "n div 10 mod 10 < 10" "n mod 10 < 10"
    using m by simp_all
  show ?thesis
    apply (rule exI[of _ "m div 10"], rule exI[of _ "m mod 10"],
           rule exI[of _ "n div 10 mod 10"], rule exI[of _ "n mod 10"])
    apply (intro conjI)
          apply (rule d tf b1 b2)+
    done
qed

section \<open>Loops that draw once per element\<close>

lemma length_draw_map: "length (draw_map f rnd k as) = length as"
  by (induction as arbitrary: k) simp_all

lemma nth_draw_map: "i < length as \<Longrightarrow> draw_map f rnd k as ! i = f (rnd (k + i)) (as ! i)"
proof (induction as arbitrary: k i)
  case Nil
  then show ?case by simp
next
  case (Cons a as)
  show ?case
  proof (cases i)
    case 0
    then show ?thesis by simp
  next
    case (Suc j)
    with Cons.prems have "j < length as" by simp
    from Cons.IH[OF this, of "Suc k"] Suc show ?thesis by simp
  qed
qed

lemma set_draw_map: "(\<And>r a. P (f r a)) \<Longrightarrow> v \<in> set (draw_map f rnd k as) \<Longrightarrow> P v"
  by (induction as arbitrary: k) auto

section \<open>The depth grid and the chlorophyll peak\<close>

lemma depth_loop_length: "0 \<le> d \<Longrightarrow> length (depth_loop d) = nat (d div 10) + 1"
proof (induction d rule: depth_loop.induct)
  case (1 d)
  show ?case
  proof (cases "0 \<le> d - 10")
    case True
    with 1 have "length (depth_loop (d - 10)) = nat ((d - 10) div 10) + 1" by simp
    moreover have "nat (d div 10) = nat ((d - 10) div 10) + 1" using True by simp
    ultimately show ?thesis using 1 by (subst depth_loop.simps) simp
  next
    case False
    then have "depth_loop (d - 10) = []" by (subst depth_loop.simps) simp
    moreover have "d div 10 = 0" using False 1 by simp
    ultimately show ?thesis using 1 by (subst depth_loop.simps) simp
  qed
qed

lemma depth_loop_nth: "10 * int i \<le> d \<Longrightarrow> depth_loop d ! i = d - 10 * int i"
proof (induction i arbitrary: d)
  case 0
  then show ?case by (subst depth_loop.simps) simp
next
  case (Suc i)
  then have "10 * int i \<le> d - 10" by simp
  from Suc.IH[OF this] Suc.prems show ?case by (subst depth_loop.simps) simp
qed

lemma length_depths: "length depths = 91"
  by (simp add: depths_def depth_loop_length)

lemma nth_depths: "i < 91 \<Longrightarrow> depths ! i = 900 - 10 * int i"
  by (simp add: depths_def depth_loop_nth)

lemma exp_neg_small: 
  assumes "9 \<le> a" shows "exp (- a) \<le> (1/10 :: real)"
proof -
  have "10 \<le> 1 + a" using assms by simp
  also have "\<dots> \<le> exp a" by (rule exp_ge_add_one_self)
  finally have "10 \<le> exp a" .
  then have "inverse (exp a) \<le> inverse 10" by (intro le_imp_inverse_le) simp_all
  then show ?thesis by (simp add: exp_minus)
qed

lemma chlorophyll_nth:
  assumes "i < 91"
  shows "chlorophyll rnd ! i =
     max 0 (0.02 + (if depths ! i > 300 then 0.01 else 0.0)
            + exp (- ((real_of_int (depths ! i) - 80)\<^sup>2) / (2 * 18\<^sup>2)) * 0.8
            + (rnd i - 0.5) * 0.01)"
  using assms by (simp add: chlorophyll_def nth_draw_map length_depths Let_def)

lemma chl_arith:
  fixes r E :: real
  shows "0 \<le> r \<Longrightarrow> 0.815 \<le> 0.02 + 0.8 + (r - 0.5) * 0.01"
    and "r < 1 \<Longrightarrow> E \<le> 1/10 \<Longrightarrow> 0.02 + E * 0.8 + (r - 0.5) * 0.01 \<le> 0.105"
    and "r < 1 \<Longrightarrow> E \<le> 1/10 \<Longrightarrow> 0.03 + E * 0.8 + (r - 0.5) * 0.01 \<le> 0.115"
  by (simp_all add: field_simps)

lemma chlorophyll_at_80:
  assumes "0 \<le> rnd 82" shows "0.815 \<le> chlorophyll rnd ! 82"
proof -
  have "chlorophyll rnd ! 82 = max 0 (0.02 + 0.8 + (rnd 82 - 0.5) * 0.01)"
    by (simp add: chlorophyll_nth nth_depths)
  moreover have "0.815 \<le> 0.02 + 0.8 + (rnd 82 - 0.5) * 0.01"
    using assms by (rule chl_arith(1))
  ultimately show ?thesis by (simp only: max.coboundedI2)
qed

lemma chlorophyll_at_0:
  assumes "rnd 90 < 1" shows "chlorophyll rnd ! 90 \<le> 0.105"
proof -
  define E :: real where "E = exp (- (6400 / 648))"
  have e: "E \<le> 1/10" unfolding E_def by (rule exp_neg_small) simp
  have "chlorophyll rnd ! 90 = max 0 (0.02 + E * 0.8 + (rnd 90 - 0.5) * 0.01)"
    by (simp add: chlorophyll_nth nth_depths E_def)
  moreover have "0.02 + E * 0.8 + (rnd 90 - 0.5) * 0.01 \<le> 0.105"
    using assms e by (rule chl_arith(2))
  moreover have "(0::real) \<le> 0.105" by simp
  ultimately show ?thesis by (simp only: max.bounded_iff)
qed

lemma chlorophyll_at_900:
  assumes "rnd 0 < 1" shows "chlorophyll rnd ! 0 \<le> 0.115"
proof -
  define E :: real where "E = exp (- (672400 / 648))"
  have e: "E \<le> 1/10" unfolding E_def by (rule exp_neg_small) simp
  have "chlorophyll rnd ! 0 = max 0 (0.03 + E * 0.8 + (rnd 0 - 0.5) * 0.01)"
    by (simp add: chlorophyll_nth nth_depths E_def)
  moreover have "0.03 + E * 0.8 + (rnd 0 - 0.5) * 0.01 \<le> 0.115"
    using assms e by (rule chl_arith(3))
  moreover have "(0::real) \<le> 0.115" by simp
  ultimately show ?thesis by (simp only: max.bounded_iff)
qed

lemma salinity_range:
  assumes "v \<in> set (salinity rnd)" shows "33 \<le> v \<and> v \<le> 35.5"
  by (rule set_draw_map[where P = "\<lambda>v. 33 \<le> v \<and> v \<le> 35.5", OF _ assms[unfolded salinity_def]])
     (simp add: Let_def)

lemma pH_range:
  assumes "v \<in> set (pH rnd)" shows "5.5 \<le> v \<and> v \<le> 9"
  by (rule set_draw_map[where P = "\<lambda>v. 5.5 \<le> v \<and> v \<le> 9", OF _ assms[unfolded pH_def]])
     (simp add: Let_def)

section \<open>The months of the temperature series\<close>

lemma date_utc_next:
  "date_utc (getUTCFullYear (date_utc 2020 (int i))) (getUTCMonth (date_utc 2020 (int i)) + 1)
   = date_utc 2020 (int (i + 1))"
proof -
  have "int i div 12 + (int i mod 12 + 1) div 12 = (1 + int i) div 12"
    using div_add1_eq[of "int i" 1 12] by (simp add: add.commute)
  moreover have "(int i mod 12 + 1) mod 12 = (1 + int i) mod 12"
    using mod_add_left_eq[of "int i" 12 1] by (simp only: add.commute)
  ultimately show ?thesis
    by (simp add: date_utc_def getUTCFullYear_def getUTCMonth_def add.assoc)
qed

lemma date_le_histEnd: "date_le (date_utc 2020 (int i)) histEnd \<longleftrightarrow> i < 60"
proof -
  have "12 * (int i div 12) + int i mod 12 = int i" by simp
  then have "12 * (2020 + int i div 12) + int i mod 12 = 24240 + int i" by simp
  then show ?thesis by (auto simp: date_le_def date_utc_def histEnd_def)
qed

lemma hist_loop_run:
  "i \<le> 60 \<Longrightarrow>
   hist_loop rnd (date_utc 2020 (int i)) i X Y =
     (X @ map (\<lambda>j. month_label (date_utc 2020 (int j))) [i..<60],
      Y @ map (hist_value rnd) [i..<60], 60)"
proof (induction "60 - i" arbitrary: i X Y)
  case 0
  then have "i = 60" by simp
  then show ?case using date_le_histEnd[of 60]
    by (subst hist_loop.simps) simp
next
  case (Suc n)
  then have lt: "i < 60" and n: "n = 60 - (i + 1)" and le: "i + 1 \<le> 60" by simp_all
  have m: "getUTCMonth (date_utc 2020 (int i)) = int i mod 12"
    by (simp add: getUTCMonth_def date_utc_def)
  have up: "[i..<60] = i # [i + 1..<60]" using lt by (simp add: upt_conv_Cons)
  have step: "hist_loop rnd (date_utc 2020 (int i)) i X Y =
      hist_loop rnd (date_utc 2020 (int (i + 1))) (i + 1)
        (X @ [month_label (date_utc 2020 (int i))]) (Y @ [hist_value rnd i])"
    apply (subst hist_loop.simps)
    apply (simp only: date_le_histEnd lt if_True Let_def date_utc_next)
    apply (simp only: m hist_value_def)
    done
  show ?case unfolding step Suc.hyps(1)[OF n le] by (simp add: up)
qed

lemma round2_strict:
  assumes "0 \<le> a" and "a + 1/100 \<le> b"
  shows "round2 a < round2 b"
proof -
  have b: "0 \<le> b" using assms by linarith
  have "\<lfloor>a * 100 + 1/2\<rfloor> + 1 = \<lfloor>a * 100 + 1/2 + 1\<rfloor>" by linarith
  also have "\<dots> \<le> \<lfloor>b * 100 + 1/2\<rfloor>"
    using assms(2) by (intro floor_mono) (simp add: field_simps)
  finally have fl: "\<lfloor>a * 100 + 1/2\<rfloor> < \<lfloor>b * 100 + 1/2\<rfloor>" by simp
  have "0 \<le> \<lfloor>a * 100 + 1/2\<rfloor>" using assms(1) by simp
  with fl have "nat \<lfloor>a * 100 + 1/2\<rfloor> < nat \<lfloor>b * 100 + 1/2\<rfloor>"
    by (simp only: nat_less_eq_zless)
  then have "hundredths a < hundredths b"
    using assms(1) b by (simp add: hundredths_def abs_of_nonneg)
  then show ?thesis using assms(1) b by (simp add: round2_def divide_strict_right_mono)
qed

lemma seasonal_july: "sin ((2 * pi * real_of_int 6) / 12 - pi / 2) = 1"
proof -
  have "(2 * pi * real_of_int 6) / 12 - pi / 2 = pi / 2" by simp
  then show ?thesis by simp
qed

lemma seasonal_august: "sin ((2 * pi * real_of_int 7) / 12 - pi / 2) = sqrt 3 / 2"
proof -
  have "(2 * pi * real_of_int 7) / 12 - pi / 2 = pi - pi / 3" by simp
  then show ?thesis by (simp only: sin_pi_minus sin_60)
qed

lemma sqrt3_bounds: "0 \<le> sqrt 3" "sqrt 3 \<le> 1.7321"
proof -
  show "0 \<le> sqrt 3" by simp
  show "sqrt 3 \<le> 1.7321" by (rule real_le_lsqrt) (simp_all add: power2_eq_square)
qed

lemma july_above_august:
  assumes "0 \<le> rnd (12 * yr + 6)" and "rnd (12 * yr + 7) < 1" and "0 \<le> rnd (12 * yr + 7)"
  shows "hist_value rnd (12 * yr + 7) < hist_value rnd (12 * yr + 6)"
proof -
  define r6 where "r6 = rnd (12 * yr + 6)"
  define r7 where "r7 = rnd (12 * yr + 7)"
  define s where "s = sqrt 3"
  define t where "t = real yr"
  have m6: "int (12 * yr + 6) mod 12 = 6" and m7: "int (12 * yr + 7) mod 12 = 7" by simp_all
  have v6: "hist_value rnd (12 * yr + 6) = round2 (20 + 6 * 1 + 0.02 * (12 * t + 6) + (r6 - 0.5) * 0.6)"
    unfolding hist_value_def m6 seasonal_july
    by (simp add: baseline_def amplitude_def monthlyTrend_def r6_def t_def)
  have v7: "hist_value rnd (12 * yr + 7) = round2 (20 + 6 * (s / 2) + 0.02 * (12 * t + 7) + (r7 - 0.5) * 0.6)"
    unfolding hist_value_def m7 seasonal_august
    by (simp add: baseline_def amplitude_def monthlyTrend_def r7_def t_def s_def)
  have r: "0 \<le> r6" "r7 < 1" "0 \<le> r7" "0 \<le> s" "s \<le> 1.7321" "0 \<le> t"
    using assms sqrt3_bounds by (simp_all add: r6_def r7_def s_def t_def)
  have pos: "0 \<le> 20 + 6 * (s / 2) + 0.02 * (12 * t + 7) + (r7 - 0.5) * 0.6"
    using r by (simp add: field_simps)
  have gap: "20 + 6 * (s / 2) + 0.02 * (12 * t + 7) + (r7 - 0.5) * 0.6 + 1/100
      \<le> 20 + 6 * 1 + 0.02 * (12 * t + 6) + (r6 - 0.5) * 0.6"
    using r by (simp add: field_simps)
  show ?thesis unfolding v6 v7 by (rule round2_strict[OF pos gap])
qed

lemma hist_loop_all:
  "hist_loop rnd histStart 0 [] [] =
     (map (\<lambda>j. month_label (date_utc 2020 (int j))) [0..<60], map (hist_value rnd) [0..<60], 60)"
  using hist_loop_run[of 0 rnd "[]" "[]"] by (simp add: histStart_def)

lemma month_label_mid:
  "month_label (date_utc 2020 (int (12 * yr + 6))) = int_to_string (2020 + int yr) @ ''-07''"
  "month_label (date_utc 2020 (int (12 * yr + 7))) = int_to_string (2020 + int yr) @ ''-08''"
proof -
  have d6: "date_utc 2020 (int (12 * yr + 6)) = (2020 + int yr, 6)"
    and d7: "date_utc 2020 (int (12 * yr + 7)) = (2020 + int yr, 7)"
    by (simp_all add: date_utc_def)
  show "month_label (date_utc 2020 (int (12 * yr + 6))) = int_to_string (2020 + int yr) @ ''-07''"
    unfolding d6
    by (simp add: month_label_def getUTCFullYear_def getUTCMonth_def padStart2_def
        int_to_string_def digit_char_simps)
  show "month_label (date_utc 2020 (int (12 * yr + 7))) = int_to_string (2020 + int yr) @ ''-08''"
    unfolding d7
    by (simp add: month_label_def getUTCFullYear_def getUTCMonth_def padStart2_def
        int_to_string_def digit_char_simps)
qed

lemma month_label_ends:
  "month_label (date_utc 2020 (int 0)) = ''2020-01''"
  "month_label (date_utc 2020 (int 59)) = ''2024-12''"
  by (simp_all add: date_utc_def month_label_def getUTCFullYear_def getUTCMonth_def padStart2_def
        int_to_string_def digit_char_simps)

section \<open>A request that is answered\<close>

lemma send_answered:
  assumes "fetch_result pf (length (requests w)) req = Inr res"
  shows "fst (send pf verb path req w) =
           (if 200 \<le> status res \<and> status res \<le> 299
            then (case json res of Some v \<Rightarrow> Inr v | None \<Rightarrow> Inl SyntaxError)
            else Inl (Error (verb @ '' '' @ path @ '' failed: '' @ nat_to_string (status res))))"
  using assms by (simp add: send_def fetch_def ok_def res_json_def)

section \<open>What a request leaves of the world\<close>

lemma send_world:
  "mockCount (snd (send pf verb path req w)) = mockCount w"
  "drawn (snd (send pf verb path req w)) = drawn w"
  by (simp_all add: send_def fetch_def split: sum.splits)

lemma postFormData_world:
  "mockCount (snd (postFormData pf path params formData init w)) = mockCount w"
  "drawn (snd (postFormData pf path params formData init w)) = drawn w"
  by (simp_all add: postFormData_def send_world split: sum.splits)

lemma classify_try_fails:
  assumes "fst (postFormData pf path None formData None w) = Inl e"
  shows "classify_try pf path shape formData (s, w) =
           (Inl e, s, snd (postFormData pf path None formData None w))"
  using assms by (cases "postFormData pf path None formData None w") (simp add: classify_try_def)

section \<open>When the three request helpers fail\<close>

text \<open>
  C4, as the code has it: when the address is built and the request is answered, each of
  \<open>getJson\<close>, \<open>postJson\<close> and \<open>postFormData\<close> raises the failure whose message ends in the
  response status exactly when the status is outside 200 to 299, both ends included. With a
  status inside, it returns the parsed body when the body parses as JSON, and raises the
  parser's own failure, which carries no status, when it does not.
\<close>

theorem request_fails_iff_not_ok:
  assumes "buildUrl pf path params = Inr u"
    and "\<forall>req. fetch_result pf (length (requests w)) req = Inr res"
  shows "fst (getJson pf path params init w) =
           (if 200 \<le> status res \<and> status res \<le> 299
            then (case json res of Some v \<Rightarrow> Inr v | None \<Rightarrow> Inl SyntaxError)
            else Inl (Error (''GET '' @ path @ '' failed: '' @ nat_to_string (status res)))) \<and>
         fst (postJson pf path params body init w) =
           (if 200 \<le> status res \<and> status res \<le> 299
            then (case json res of Some v \<Rightarrow> Inr v | None \<Rightarrow> Inl SyntaxError)
            else Inl (Error (''POST '' @ path @ '' failed: '' @ nat_to_string (status res)))) \<and>
         fst (postFormData pf path params formData init w) =
           (if 200 \<le> status res \<and> status res \<le> 299
            then (case json res of Some v \<Rightarrow> Inr v | None \<Rightarrow> Inl SyntaxError)
            else Inl (Error (''POST '' @ path @ '' failed: '' @ nat_to_string (status res))))"
proof -
  have a: "fetch_result pf (length (requests w)) req = Inr res" for req
    using assms(2) by simp
  show ?thesis
    unfolding getJson_def postJson_def postFormData_def assms(1) sum.case
    by (simp add: send_answered[OF a])
qed

theorem request_fails_iff_not_ok_witness:
  "fst (getJson (demo_platform (answers 404 (Some JNull))) ''/forecast_interactive'' None None fresh_world)
     = Inl (Error ''GET /forecast_interactive failed: 404'') \<and>
   fst (postJson (demo_platform (answers 200 (Some (JBool True)))) ''/api/v1/forecast'' None JNull None fresh_world)
     = Inr (JBool True) \<and>
   fst (postFormData (demo_platform (answers 200 None)) ''/classify/fish'' None [] None fresh_world)
     = Inl SyntaxError"
proof -
  have b: "buildUrl (demo_platform net) ''/forecast_interactive'' None = Inr ''http://127.0.0.1:8000/forecast_interactive''"
    "buildUrl (demo_platform net) ''/api/v1/forecast'' None = Inr ''http://127.0.0.1:8000/api/v1/forecast''"
    "buildUrl (demo_platform net) ''/classify/fish'' None = Inr ''http://127.0.0.1:8000/classify/fish''"
    for net
    by (simp_all add: buildUrl_def URL_new_def demo_platform_def startsWith_def split_first_def
        URL_toString_def)
  have f: "\<forall>req. fetch_result (demo_platform (answers st bd)) (length (requests fresh_world)) req
      = Inr \<lparr>status = st, json = bd\<rparr>" for st bd
    by (simp add: demo_platform_def answers_def)
  show ?thesis
    using request_fails_iff_not_ok[OF b(1) f, of 404 "Some JNull" None JNull "[]"]
      request_fails_iff_not_ok[OF b(2) f, of 200 "Some (JBool True)" None JNull "[]"]
      request_fails_iff_not_ok[OF b(3) f, of 200 None None JNull "[]"]
    by (simp add: digit_char_simps)
qed

text \<open>
  C4 as stated takes the range to end before 299. At status 299 with a body that parses, the
  helper returns the parsed value, though 299 is not in \<open>[200, 299)\<close>.
\<close>

theorem status_299_counterexample:
  "fst (getJson (demo_platform (answers 299 (Some (JBool True)))) ''/forecast_interactive''
          None None fresh_world) = Inr (JBool True) \<and>
   (299::nat) \<notin> {200..<299}"
  by (simp add: getJson_def buildUrl_def URL_new_def demo_platform_def startsWith_def split_first_def
        URL_toString_def send_def fetch_def answers_def ok_def res_json_def fresh_world_def
        spread_init_def)

section \<open>The classification falls back to the mock\<close>

text \<open>
  C1: with a file selected, when the request to the primary route and the requests to the
  two alternative routes each fail, \<open>handleClassifyFish\<close> ends normally, the classification
  result is the species and confidence the mock generator returns at the module's counter and
  the next draw, the error field is null and \<open>uploading\<close> is false again.
\<close>

theorem classify_falls_back_to_mock:
  fixes pf :: platform and s :: fisheries and w :: world and f :: js_file
  defines "w1 \<equiv> snd (postFormData pf ''/predict/fish_species'' None [(''file'', f)] None w)"
  defines "w2 \<equiv> snd (postFormData pf ''/classify/fish'' None [(''file'', f)] None w1)"
  defines "w3 \<equiv> snd (postFormData pf ''/api/v1/fish/classify'' None [(''file'', f)] None w2)"
  defines "mock \<equiv> fst (mockFishClassification (mockCount w) (Math_random pf (drawn w)))"
  assumes sel: "selectedFile s = Some f"
    and f1: "fst (postFormData pf ''/predict/fish_species'' None [(''file'', f)] None w) = Inl e1"
    and f2: "fst (postFormData pf ''/classify/fish'' None [(''file'', f)] None w1) = Inl e2"
    and f3: "fst (postFormData pf ''/api/v1/fish/classify'' None [(''file'', f)] None w2) = Inl e3"
  shows "handleClassifyFish pf (s, w) =
           (Inr (),
            s\<lparr>classificationResult :=
                 JObj [(''species'', JStr (species mock)), (''confidence'', JStr (confidence mock))],
               classifyError := None, uploading := False\<rparr>,
            w3\<lparr>mockCount := mockCount w + 1, drawn := drawn w + 1\<rparr>)"
proof -
  have c: "mockCount w3 = mockCount w" "drawn w3 = drawn w"
    by (simp_all add: w3_def w2_def w1_def postFormData_world)
  have t1: "classify_try pf ''/predict/fish_species'' primary_result [(''file'', f)]
              (s\<lparr>uploading := True\<rparr>, w) = (Inl e1, s\<lparr>uploading := True\<rparr>, w1)"
    unfolding w1_def by (rule classify_try_fails[OF f1])
  have t2: "classify_try pf ''/classify/fish'' alternate_result [(''file'', f)]
              (s\<lparr>uploading := True\<rparr>, w1) = (Inl e2, s\<lparr>uploading := True\<rparr>, w2)"
    unfolding w2_def by (rule classify_try_fails[OF f2])
  have t3: "classify_try pf ''/api/v1/fish/classify'' alternate_result [(''file'', f)]
              (s\<lparr>uploading := True\<rparr>, w2) = (Inl e3, s\<lparr>uploading := True\<rparr>, w3)"
    unfolding w3_def by (rule classify_try_fails[OF f3])
  show ?thesis
    by (simp add: handleClassifyFish_def sel t1 t2 t3 classify_mock_def c mock_def
        mockFishClassification_def Let_def)
qed

theorem classify_falls_back_to_mock_witness:
  "handleClassifyFish (demo_platform unreachable)
     (initial_fisheries\<lparr>selectedFile := Some (File 1 ''fish.png'')\<rparr>, fresh_world)
   = (Inr (),
      initial_fisheries\<lparr>selectedFile := Some (File 1 ''fish.png''),
        classificationResult := JObj [(''species'', JStr ''Neon Tetra''), (''confidence'', JStr ''81.00%'')]\<rparr>,
      fresh_world\<lparr>requests :=
          [\<lparr>r_method = ''POST'', r_url = ''http://127.0.0.1:8000/predict/fish_species'',
            r_headers = [(''Accept'', ''application/json'')],
            r_body = FormData [(''file'', File 1 ''fish.png'')]\<rparr>,
           \<lparr>r_method = ''POST'', r_url = ''http://127.0.0.1:8000/classify/fish'',
            r_headers = [(''Accept'', ''application/json'')],
            r_body = FormData [(''file'', File 1 ''fish.png'')]\<rparr>,
           \<lparr>r_method = ''POST'', r_url = ''http://127.0.0.1:8000/api/v1/fish/classify'',
            r_headers = [(''Accept'', ''application/json'')],
            r_body = FormData [(''file'', File 1 ''fish.png'')]\<rparr>],
        mockCount := 1, drawn := 1\<rparr>)"
proof -
  have p: "postFormData (demo_platform unreachable) path None fd None w =
      (Inl TypeError, w\<lparr>requests := requests w @
         [\<lparr>r_method = ''POST'', r_url = ''http://127.0.0.1:8000'' @ path,
            r_headers = [(''Accept'', ''application/json'')], r_body = FormData fd\<rparr>]\<rparr>)"
    if "path \<in> {''/predict/fish_species'', ''/classify/fish'', ''/api/v1/fish/classify''}" for path fd w
    using that
    by (auto simp: postFormData_def buildUrl_def URL_new_def demo_platform_def startsWith_def
        split_first_def URL_toString_def send_def fetch_def unreachable_def spread_init_def
        merge_headers_def init_headers_def)
  have m: "mockFishClassification 0 (1 / 2) = (\<lparr>species = ''Neon Tetra'', confidence = ''81.00%''\<rparr>, 1)"
    by (simp add: mockFishClassification_def species_order_def toFixed2_def hundredths_def
        digit_char_simps)
  have r: "Math_random (demo_platform unreachable) k = 1 / 2" for k
    by (simp add: demo_platform_def)
  show ?thesis
    using classify_falls_back_to_mock[of "initial_fisheries\<lparr>selectedFile := Some (File 1 ''fish.png'')\<rparr>"
        "File 1 ''fish.png''" "demo_platform unreachable" fresh_world TypeError TypeError TypeError]
    by (simp add: p m r fresh_world_def initial_fisheries_def)
qed

section \<open>The forecast mock\<close>

text \<open>
  C5: the forecast mock returns two series. The forecast line has 31 points, labelled 2000 to
  2030, point \<open>i\<close> being \<open>f(2000 + i) = 55 + 0.6 i + 0.22 i\<^sup>2\<close>, so 55 at 2000 and 271 at 2030.
  The actual scatter has 21 points, labelled 2000 to 2020, each \<open>max 50 (f + jitter)\<close> with a
  jitter between -1 and 1, whenever the draws lie in \<open>[0, 1)\<close>.
\<close>

theorem mockForecastInteractive_series:
  assumes "\<forall>k. 0 \<le> rnd k \<and> rnd k < 1"
  shows "\<exists>actual fc. mockForecastInteractive rnd = [actual, fc] \<and>
           sx fc = map (L_str \<circ> int_to_string) [2000..2030] \<and>
           length (sx fc) = 31 \<and> length (sy fc) = 31 \<and>
           (\<forall>i<31. sy fc ! i = 55 + 0.6 * real i + 0.22 * (real i)\<^sup>2) \<and>
           sx fc ! 0 = L_str ''2000'' \<and> sy fc ! 0 = 55 \<and>
           sx fc ! 30 = L_str ''2030'' \<and> sy fc ! 30 = 271 \<and>
           sx actual = map (L_str \<circ> int_to_string) [2000..2020] \<and>
           length (sx actual) = 21 \<and> length (sy actual) = 21 \<and>
           (\<forall>i<21. \<exists>jitter. - 1 \<le> jitter \<and> jitter \<le> 1 \<and>
              sy actual ! i = max 50 (55 + 0.6 * real i + 0.22 * (real i)\<^sup>2 + jitter))"
proof -
  have L31: "length ([2000..2030]::int list) = 31" and L21: "length ([2000..2020]::int list) = 21"
    unfolding length_upto by simp_all
  have N31: "([2000..2030]::int list) ! i = 2000 + int i" if "i < 31" for i
    using that by (intro nth_upto) simp
  have N21: "([2000..2020]::int list) ! i = 2000 + int i" if "i < 21" for i
    using that by (intro nth_upto) simp
  have fc_nth: "forecast ! i = 55 + 0.6 * real i + 0.22 * (real i)\<^sup>2" if "i < 31" for i
    using that N31[OF that] L31
    by (simp add: forecast_def yearsFull_def baseYear_def Let_def power2_eq_square
             del: upto_rec_numeral)
  have ac_nth: "\<exists>jitter. - 1 \<le> jitter \<and> jitter \<le> 1 \<and>
      actualValues rnd ! i = max 50 (55 + 0.6 * real i + 0.22 * (real i)\<^sup>2 + jitter)" if "i < 21" for i
  proof -
    have r: "0 \<le> rnd i" "rnd i < 1" using assms by simp_all
    have "actualValues rnd ! i =
        max 50 (55 + 0.6 * real i + 0.22 * (real i)\<^sup>2 + (rnd i - 0.5) * 2.0)"
      using that N21[OF that] L21
      by (simp add: actualValues_def actualYears_def baseYear_def nth_draw_map Let_def
            power2_eq_square del: upto_rec_numeral)
    moreover have "- 1 \<le> (rnd i - 0.5) * 2.0" "(rnd i - 0.5) * 2.0 \<le> 1" using r by simp_all
    ultimately show ?thesis by blast
  qed
  have l0: "int_to_string 2000 = ''2000''" and l30: "int_to_string 2030 = ''2030''"
    by (simp_all add: int_to_string_def digit_char_simps)
  have x0: "map (L_str \<circ> int_to_string) [2000..2030] ! 0 = L_str ''2000''"
    using L31 N31[of 0] l0 by (simp del: upto_rec_numeral)
  have x30: "map (L_str \<circ> int_to_string) [2000..2030] ! 30 = L_str ''2030''"
    using L31 N31[of 30] l30 by (simp del: upto_rec_numeral)
  have y0: "forecast ! 0 = 55" using fc_nth[of 0] by simp
  have y30: "forecast ! 30 = 271" using fc_nth[of 30] by simp
  have lf: "length forecast = 31" using L31 by (simp add: forecast_def yearsFull_def del: upto_rec_numeral)
  have la: "length (actualValues rnd) = 21"
    using L21 by (simp add: actualValues_def actualYears_def length_draw_map del: upto_rec_numeral)
  show ?thesis
    unfolding mockForecastInteractive_def
    apply (intro exI conjI)
                apply (rule refl)
    using fc_nth ac_nth x0 x30 y0 y30 lf la L31 L21
               apply (simp_all add: yearsFull_def actualYears_def del: upto_rec_numeral)
    done
qed

theorem mockForecastInteractive_series_witness:
  "length (sy (mockForecastInteractive (\<lambda>_. 1/2) ! 0)) = 21 \<and>
   sy (mockForecastInteractive (\<lambda>_. 1/2) ! 0) ! 20 = 155 \<and>
   sy (mockForecastInteractive (\<lambda>_. 1/2) ! 1) ! 30 = 271"
proof -
  have h: "\<forall>k::nat. (0::real) \<le> 1/2 \<and> (1/2::real) < 1" by simp
  from mockForecastInteractive_series[OF h] obtain actual fc where
    m: "mockForecastInteractive (\<lambda>_. 1/2) = [actual, fc]" and
    f: "sy fc ! 30 = 271" and la: "length (sy actual) = 21" and
    a: "\<forall>i<21. \<exists>jitter. - 1 \<le> jitter \<and> jitter \<le> 1 \<and>
              sy actual ! i = max 50 (55 + 0.6 * real i + 0.22 * (real i)\<^sup>2 + jitter)"
    by blast
  have "sy actual ! 20 = 155"
    using m by (auto simp: mockForecastInteractive_def actualValues_def actualYears_def baseYear_def)
  with m f la show ?thesis by simp
qed

section \<open>The depth mock\<close>

text \<open>
  C6: whenever the draws lie in \<open>[0, 1)\<close>, the depth mock returns three series over the 91
  depths 900, 890, ..., 0. Depth 80 is at index 82, depth 0 at index 90 and depth 900 at
  index 0, and the chlorophyll value at any index labelled 80 exceeds the value at any index
  labelled 0 or 900. Every salinity value lies in \<open>[33.0, 35.5]\<close> and every pH value in
  \<open>[5.5, 9.0]\<close>.
\<close>

theorem mockDepth_peak_and_ranges:
  assumes "\<forall>k. 0 \<le> rnd k \<and> rnd k < 1"
  shows "\<exists>chl ph sal. mockDepth rnd = [chl, ph, sal] \<and>
           length (sx chl) = 91 \<and> length (sy chl) = 91 \<and>
           sx chl ! 82 = L_num 80 \<and> sx chl ! 90 = L_num 0 \<and> sx chl ! 0 = L_num 900 \<and>
           (\<forall>i<91. \<forall>j<91. sx chl ! i = L_num 80 \<and> (sx chl ! j = L_num 0 \<or> sx chl ! j = L_num 900)
              \<longrightarrow> sy chl ! j < sy chl ! i) \<and>
           (\<forall>v \<in> set (sy sal). 33 \<le> v \<and> v \<le> 35.5) \<and>
           (\<forall>v \<in> set (sy ph). 5.5 \<le> v \<and> v \<le> 9)"
proof -
  have r: "0 \<le> rnd 82" "rnd 90 < 1" "rnd 0 < 1" using assms by simp_all
  have peak: "chlorophyll rnd ! j < chlorophyll rnd ! i"
    if "i < 91" "j < 91" "depths ! i = 80" "depths ! j = 0 \<or> depths ! j = 900" for i j
  proof -
    have i: "i = 82" using that(1,3) by (simp add: nth_depths)
    have "j = 90 \<or> j = 0" using that(2,4) by (auto simp: nth_depths)
    then show ?thesis
      using i chlorophyll_at_80[of rnd, OF r(1)] chlorophyll_at_0[of rnd, OF r(2)]
        chlorophyll_at_900[of rnd, OF r(3)]
      by auto
  qed
  have lc: "length (chlorophyll rnd) = 91"
    by (simp add: chlorophyll_def length_draw_map length_depths)
  have x: "map L_num depths ! 82 = L_num 80" "map L_num depths ! 90 = L_num 0"
    "map L_num depths ! 0 = L_num 900"
    by (simp_all add: length_depths nth_depths)
  have all: "\<forall>i<91. \<forall>j<91. map L_num depths ! i = L_num 80 \<and>
      (map L_num depths ! j = L_num 0 \<or> map L_num depths ! j = L_num 900)
              \<longrightarrow> chlorophyll rnd ! j < chlorophyll rnd ! i"
    using peak by (simp add: length_depths)
  show ?thesis
    unfolding mockDepth_def
    apply (intro exI conjI)
            apply (rule refl)
    using lc x all salinity_range pH_range
           apply (simp_all add: length_depths)
    done
qed

theorem mockDepth_peak_and_ranges_witness:
  "length (sy (mockDepth (\<lambda>_. 1/2) ! 0)) = 91 \<and>
   sy (mockDepth (\<lambda>_. 1/2) ! 0) ! 90 < sy (mockDepth (\<lambda>_. 1/2) ! 0) ! 82 \<and>
   sy (mockDepth (\<lambda>_. 1/2) ! 0) ! 0 < sy (mockDepth (\<lambda>_. 1/2) ! 0) ! 82"
proof -
  have h: "\<forall>k::nat. (0::real) \<le> 1/2 \<and> (1/2::real) < 1" by simp
  from mockDepth_peak_and_ranges[OF h] obtain chl ph sal where
    m: "mockDepth (\<lambda>_. 1/2) = [chl, ph, sal]" and
    l: "length (sy chl) = 91" and
    x: "sx chl ! 82 = L_num 80" "sx chl ! 90 = L_num 0" "sx chl ! 0 = L_num 900" and
    p: "\<forall>i<91. \<forall>j<91. sx chl ! i = L_num 80 \<and> (sx chl ! j = L_num 0 \<or> sx chl ! j = L_num 900)
              \<longrightarrow> sy chl ! j < sy chl ! i"
    by blast
  from p x have "sy chl ! 90 < sy chl ! 82" "sy chl ! 0 < sy chl ! 82" by simp_all
  with m l show ?thesis by simp
qed

section \<open>The temperature mock\<close>

text \<open>
  C7: the temperature mock returns a historical series of 60 months, 2020-01 to 2024-12, and
  a forecast series of 18 months. Whenever the draws lie in \<open>[0, 1)\<close>, the value of July
  exceeds the value of August in each of the five years: the seasonal term
  \<open>6 sin (2 pi m / 12 - pi / 2)\<close> is largest at the month index \<open>m = 6\<close>, which is July.
\<close>

theorem mockSST_warm_peak_july:
  assumes "\<forall>k. 0 \<le> rnd k \<and> rnd k < 1"
  shows "\<exists>hist fc. mockSST rnd = [hist, fc] \<and>
           length (sx hist) = 60 \<and> length (sy hist) = 60 \<and>
           length (sx fc) = 18 \<and> length (sy fc) = 18 \<and>
           sx hist ! 0 = L_str ''2020-01'' \<and> sx hist ! 59 = L_str ''2024-12'' \<and>
           (\<forall>yr<5. sx hist ! (12 * yr + 6) = L_str (int_to_string (2020 + int yr) @ ''-07'') \<and>
                    sx hist ! (12 * yr + 7) = L_str (int_to_string (2020 + int yr) @ ''-08'') \<and>
                    sy hist ! (12 * yr + 7) < sy hist ! (12 * yr + 6))"
proof -
  have cmp: "map (hist_value rnd) [0..<60] ! (12 * yr + 7) < map (hist_value rnd) [0..<60] ! (12 * yr + 6)"
    if "yr < 5" for yr
  proof -
    have "hist_value rnd (12 * yr + 7) < hist_value rnd (12 * yr + 6)"
      using assms by (intro july_above_august) simp_all
    then show ?thesis using that by simp
  qed
  have lab: "map (\<lambda>j. month_label (date_utc 2020 (int j))) [0..<60] ! (12 * yr + 6)
               = int_to_string (2020 + int yr) @ ''-07''"
            "map (\<lambda>j. month_label (date_utc 2020 (int j))) [0..<60] ! (12 * yr + 7)
               = int_to_string (2020 + int yr) @ ''-08''" if "yr < 5" for yr
    using that month_label_mid[of yr] by simp_all
  have ends: "map (\<lambda>j. month_label (date_utc 2020 (int j))) [0..<60] ! 0 = ''2020-01''"
    "map (\<lambda>j. month_label (date_utc 2020 (int j))) [0..<60] ! 59 = ''2024-12''"
    using month_label_ends by simp_all
  show ?thesis
    unfolding mockSST_def hist_loop_all prod.case Let_def
    apply (intro exI conjI)
           apply (rule refl)
    using cmp lab ends
          apply (simp_all add: nth_map del: map_map)
    done
qed

theorem mockSST_warm_peak_july_witness:
  "sx (mockSST (\<lambda>_. 1/2) ! 0) ! 6 = L_str ''2020-07'' \<and>
   sx (mockSST (\<lambda>_. 1/2) ! 0) ! 7 = L_str ''2020-08'' \<and>
   sy (mockSST (\<lambda>_. 1/2) ! 0) ! 7 < sy (mockSST (\<lambda>_. 1/2) ! 0) ! 6"
proof -
  have h: "\<forall>k::nat. (0::real) \<le> 1/2 \<and> (1/2::real) < 1" by simp
  from mockSST_warm_peak_july[OF h] obtain hist fc where
    m: "mockSST (\<lambda>_. 1/2) = [hist, fc]" and
    p: "\<forall>yr<5. sx hist ! (12 * yr + 6) = L_str (int_to_string (2020 + int yr) @ ''-07'') \<and>
                    sx hist ! (12 * yr + 7) = L_str (int_to_string (2020 + int yr) @ ''-08'') \<and>
                    sy hist ! (12 * yr + 7) < sy hist ! (12 * yr + 6)"
    by blast
  have "int_to_string 2020 = ''2020''" by (simp add: int_to_string_def digit_char_simps)
  with p[rule_format, of 0] m show ?thesis by simp
qed

section \<open>The classification mock rotates through its species\<close>

text \<open>
  C8: for every counter value \<open>n\<close> and every draw \<open>0 \<le> r < 1\<close>, the call returns the species at
  index \<open>n mod 3\<close> of the fixed list and the counter \<open>n + 1\<close>; four consecutive calls return
  the species at \<open>n\<close>, \<open>n + 1\<close>, \<open>n + 2\<close> and again \<open>n\<close> modulo 3; the confidence is two digits, a
  point, two digits and a percent sign, and its value lies between 75 and 87.
\<close>

theorem mockFishClassification_round_robin:
  assumes "0 \<le> r" and "r < 1"
  shows "\<exists>c. mockFishClassification n r =
           (\<lparr>species = [''Neon Tetra'', ''Zebra Danio'', ''Clownfish''] ! (n mod 3), confidence = c\<rparr>,
            n + 1) \<and>
         (\<exists>d1 d2 d3 d4. d1 < 10 \<and> d2 < 10 \<and> d3 < 10 \<and> d4 < 10 \<and>
            c = [digit_char d1, digit_char d2, CHR ''.'', digit_char d3, digit_char d4, CHR ''%''] \<and>
            75 \<le> real (10 * d1 + d2) + real (10 * d3 + d4) / 100 \<and>
            real (10 * d1 + d2) + real (10 * d3 + d4) / 100 \<le> 87) \<and>
         map species (consecutive_calls n [r, r2, r3, r4]) =
           map (\<lambda>k. [''Neon Tetra'', ''Zebra Danio'', ''Clownfish''] ! (k mod 3)) [n, n + 1, n + 2, n + 3] \<and>
         (n + 3) mod 3 = n mod 3"
proof -
  have v: "75 \<le> r * (87 - 75) + 75" "r * (87 - 75) + 75 < 87" using assms by simp_all
  obtain a b c d where sh: "a < 10" "b < 10" "c < 10" "d < 10"
    "toFixed2 (r * (87 - 75) + 75) = [digit_char a, digit_char b, CHR ''.'', digit_char c, digit_char d]"
    "75 \<le> real (10 * a + b) + real (10 * c + d) / 100"
    "real (10 * a + b) + real (10 * c + d) / 100 \<le> 87"
    using toFixed2_shape[OF v] by blast
  have call: "mockFishClassification n r =
     (\<lparr>species = [''Neon Tetra'', ''Zebra Danio'', ''Clownfish''] ! (n mod 3),
       confidence = toFixed2 (r * (87 - 75) + 75) @ ''%''\<rparr>, n + 1)"
    by (simp add: mockFishClassification_def species_order_def Let_def)
  have seq: "map species (consecutive_calls n [r, r2, r3, r4]) =
           map (\<lambda>k. [''Neon Tetra'', ''Zebra Danio'', ''Clownfish''] ! (k mod 3)) [n, n + 1, n + 2, n + 3]"
    by (simp add: mockFishClassification_def species_order_def Let_def add.commute)
  have e: "toFixed2 (r * (87 - 75) + 75) @ ''%'' =
              [digit_char a, digit_char b, CHR ''.'', digit_char c, digit_char d, CHR ''%'']"
    unfolding sh(5) by simp
  have conf: "\<exists>d1 d2 d3 d4. d1 < 10 \<and> d2 < 10 \<and> d3 < 10 \<and> d4 < 10 \<and>
            toFixed2 (r * (87 - 75) + 75) @ ''%'' =
              [digit_char d1, digit_char d2, CHR ''.'', digit_char d3, digit_char d4, CHR ''%''] \<and>
            75 \<le> real (10 * d1 + d2) + real (10 * d3 + d4) / 100 \<and>
            real (10 * d1 + d2) + real (10 * d3 + d4) / 100 \<le> 87"
    apply (rule exI[of _ a], rule exI[of _ b], rule exI[of _ c], rule exI[of _ d])
    apply (intro conjI)
          apply (rule sh e)+
    done
  show ?thesis
  proof (intro exI[of _ "toFixed2 (r * (87 - 75) + 75) @ ''%''"] conjI)
    show "mockFishClassification n r =
      (\<lparr>species = [''Neon Tetra'', ''Zebra Danio'', ''Clownfish''] ! (n mod 3),
        confidence = toFixed2 (r * (87 - 75) + 75) @ ''%''\<rparr>, n + 1)"
      by (rule call)
    show "\<exists>d1 d2 d3 d4. d1 < 10 \<and> d2 < 10 \<and> d3 < 10 \<and> d4 < 10 \<and>
            toFixed2 (r * (87 - 75) + 75) @ ''%'' =
              [digit_char d1, digit_char d2, CHR ''.'', digit_char d3, digit_char d4, CHR ''%''] \<and>
            75 \<le> real (10 * d1 + d2) + real (10 * d3 + d4) / 100 \<and>
            real (10 * d1 + d2) + real (10 * d3 + d4) / 100 \<le> 87"
      by (rule conf)
    show "map species (consecutive_calls n [r, r2, r3, r4]) =
           map (\<lambda>k. [''Neon Tetra'', ''Zebra Danio'', ''Clownfish''] ! (k mod 3)) [n, n + 1, n + 2, n + 3]"
      by (rule seq)
    show "(n + 3) mod 3 = n mod 3" by simp
  qed
qed

theorem mockFishClassification_round_robin_witness:
  "(0::real) \<le> 1/2 \<and> (1/2::real) < 1 \<and>
   mockFishClassification 4 (1/2) = (\<lparr>species = ''Zebra Danio'', confidence = ''81.00%''\<rparr>, 5) \<and>
   map species (consecutive_calls 0 [1/2, 0, 1/4, 1/3]) =
     [''Neon Tetra'', ''Zebra Danio'', ''Clownfish'', ''Neon Tetra'']"
  using mockFishClassification_round_robin[of "1/2" 4 0 0 0]
        mockFishClassification_round_robin[of "1/2" 0 0 "1/4" "1/3"]
  by (simp add: mockFishClassification_def species_order_def toFixed2_def hundredths_def digit_char_simps)

section \<open>No file, no effect\<close>

text \<open>
  C10: with no file selected, \<open>handleClassifyFish\<close> and \<open>handleAnalyzeeDNA\<close> end at once: the
  state of the view and the world, the list of requests issued included, are as before.
\<close>

theorem no_file_no_effect:
  assumes "selectedFile s = None" and "selectedFile_bio b = None"
  shows "handleClassifyFish pf (s, w) = (Inr (), s, w) \<and>
         handleAnalyzeeDNA pf (b, w) = (Inr (), b, w) \<and>
         requests (snd (snd (handleClassifyFish pf (s, w)))) = requests w \<and>
         requests (snd (snd (handleAnalyzeeDNA pf (b, w)))) = requests w"
  using assms by (simp add: handleClassifyFish_def handleAnalyzeeDNA_def)

theorem no_file_no_effect_witness:
  "handleClassifyFish (demo_platform unreachable) (initial_fisheries, fresh_world)
     = (Inr (), initial_fisheries, fresh_world) \<and>
   handleAnalyzeeDNA (demo_platform unreachable) (initial_biodiversity, fresh_world)
     = (Inr (), initial_biodiversity, fresh_world) \<and>
   requests fresh_world = []"
  using no_file_no_effect[of initial_fisheries initial_biodiversity "demo_platform unreachable" fresh_world]
  by (simp add: initial_fisheries_def initial_biodiversity_def fresh_world_def)

end
